theory Spec2Isabelle
  imports Complex_Main "HOL-Library.AList" "HOL-Library.Char_ord" "HOL-Library.List_Lexorder"
begin

section \<open>Texts\<close>

text \<open>
  A Python \<open>str\<close> is modelled as a HOL \<open>string\<close>: a list of characters with code points
  0 to 255. This range holds every character that the patterns and constants of
  \<^verbatim>\<open>main.py\<close> name. Among these characters the ones matched by the regular expression
  class \<^verbatim>\<open>\d\<close> are the ten ASCII digits, and the ones matched by \<^verbatim>\<open>\s\<close> (and removed by
  \<^verbatim>\<open>str.strip()\<close>) are the twelve listed in \<open>is_space\<close>.
\<close>

definition is_digit :: "char \<Rightarrow> bool" where
  "is_digit c = (c \<in> set ''0123456789'')"

definition is_space :: "char \<Rightarrow> bool" where
  "is_space c = (of_char c \<in> set [9, 10, 11, 12, 13, 28, 29, 30, 31, 32, 133, 160 :: nat])"

text \<open>\<^verbatim>\<open>int(digito)\<close> for one digit character.\<close>

definition int_digito :: "char \<Rightarrow> int" where
  "int_digito c = int (of_char c) - 48"

text \<open>\<^verbatim>\<open>str(n)\<close> for an integer: its decimal numeral.\<close>

definition digit_char :: "nat \<Rightarrow> char" where
  "digit_char n = ''0123456789'' ! n"

fun str_nat :: "nat \<Rightarrow> string" where
  "str_nat n = (if n < 10 then [digit_char n] else str_nat (n div 10) @ [digit_char (n mod 10)])"

declare str_nat.simps [simp del]

definition py_str :: "int \<Rightarrow> string" where
  "py_str i = (if i < 0 then CHR ''-'' # str_nat (nat (- i)) else str_nat (nat i))"

text \<open>
  \<^verbatim>\<open>str.lower()\<close> on these characters: the ASCII capitals and the capitals from code point 192
  to 222 (the multiplication sign 215 apart) move 32 places up; the others stay.
  \<open>upper_ascii\<close> is \<^verbatim>\<open>str.upper()\<close> on ASCII text; the program upper-cases the names of
  its form fields only.
\<close>

definition lower_char :: "char \<Rightarrow> char" where
  "lower_char c =
     (if (CHR ''A'' \<le> c \<and> c \<le> CHR ''Z'') \<or> (CHR 0xC0 \<le> c \<and> c \<le> CHR 0xDE \<and> c \<noteq> CHR 0xD7)
      then char_of (of_char c + (32::nat)) else c)"

definition py_lower :: "string \<Rightarrow> string" where
  "py_lower s = map lower_char s"

definition upper_ascii_char :: "char \<Rightarrow> char" where
  "upper_ascii_char c =
     (if CHR ''a'' \<le> c \<and> c \<le> CHR ''z'' then char_of (of_char c - (32::nat)) else c)"

definition upper_ascii :: "string \<Rightarrow> string" where
  "upper_ascii s = map upper_ascii_char s"

section \<open>Library functions taken as parameters\<close>

text \<open>
  The program computes with Python floats and title-cases names with \<^verbatim>\<open>str.title()\<close>. What
  these library operations return depends on IEEE arithmetic and on the Unicode case
  tables, not on the repository. They are parameters of the model: \<open>'f\<close> is the type of
  floats, and every theorem below holds for every choice of the operations.
  \<^item> \<open>py_float s\<close> is \<^verbatim>\<open>float(s)\<close>, or \<open>None\<close> where it raises \<^verbatim>\<open>ValueError\<close>;
  \<^item> \<open>py_round2 x\<close> is \<^verbatim>\<open>round(x, 2)\<close>;
  \<^item> \<open>py_sum xs\<close> is \<^verbatim>\<open>sum(xs)\<close> and \<open>py_div x n\<close> is \<^verbatim>\<open>x / n\<close> for a length \<open>n\<close>;
  \<^item> \<open>py_max x y\<close> is \<^verbatim>\<open>max(x, y)\<close>;
  \<^item> \<open>salario_min\<close> is the float \<^verbatim>\<open>1412.00\<close>, the default of \<^verbatim>\<open>calcular_beneficio\<close>;
  \<^item> \<open>py_title s\<close> is \<^verbatim>\<open>s.title()\<close>;
  \<^item> \<open>py_bool_float x\<close> is \<^verbatim>\<open>bool(x)\<close>, the truth value of a float.
\<close>

record 'f pylib =
  py_float :: "string \<Rightarrow> 'f option"
  py_round2 :: "'f \<Rightarrow> 'f"
  py_sum :: "'f list \<Rightarrow> 'f"
  py_div :: "'f \<Rightarrow> nat \<Rightarrow> 'f"
  py_max :: "'f \<Rightarrow> 'f \<Rightarrow> 'f"
  salario_min :: 'f
  py_title :: "string \<Rightarrow> string"
  py_bool_float :: "'f \<Rightarrow> bool"

subsection \<open>An instance of the parameters\<close>

text \<open>
  To run the model on concrete inputs, \<open>cent_lib\<close> instantiates the parameters with
  fixed-point arithmetic: an amount is an integer number of hundredths. \<open>cent_float\<close> reads
  an unsigned decimal numeral (digits with at most one point and at least one digit),
  rounding at the third decimal place, and rejects every other string; rounding to two
  places then changes nothing. \<open>title_ascii\<close> capitalises the first letter of each run of
  ASCII letters and lower-cases the rest of the run. The instance is used for evaluation
  only; no theorem about the program depends on it.
\<close>

definition valor_digitos :: "string \<Rightarrow> int" where
  "valor_digitos s = foldl (\<lambda>a c. 10 * a + int_digito c) 0 s"

definition cent_float :: "string \<Rightarrow> int option" where
  "cent_float s =
     (let ip = takeWhile is_digit s; r = dropWhile is_digit s
      in if r = [] then (if ip = [] then None else Some (100 * valor_digitos ip))
         else if hd r = CHR ''.'' \<and> filter is_digit (tl r) = tl r \<and> (ip \<noteq> [] \<or> tl r \<noteq> [])
         then Some (100 * valor_digitos ip + (valor_digitos (take 3 (tl r @ ''000'')) + 5) div 10)
         else None)"

fun title_ascii_aux :: "bool \<Rightarrow> string \<Rightarrow> string" where
  "title_ascii_aux prev [] = []"
| "title_ascii_aux prev (c # cs) =
     (let letra = (CHR ''A'' \<le> c \<and> c \<le> CHR ''Z'') \<or> (CHR ''a'' \<le> c \<and> c \<le> CHR ''z'')
      in (if prev then lower_char c else upper_ascii_char c) # title_ascii_aux letra cs)"

definition title_ascii :: "string \<Rightarrow> string" where
  "title_ascii s = title_ascii_aux False s"

definition cent_lib :: "int pylib" where
  "cent_lib =
     \<lparr>py_float = cent_float, py_round2 = (\<lambda>x. x), py_sum = sum_list,
      py_div = (\<lambda>x n. x div int n), py_max = max, salario_min = 141200,
      py_title = title_ascii, py_bool_float = (\<lambda>x. x \<noteq> 0)\<rparr>"

section \<open>Tax-ID validation: \<^verbatim>\<open>validar_cpf\<close>\<close>

text \<open>
  The loop of the inner function \<^verbatim>\<open>calcular_digito\<close>: \<open>tot\<close> (the source's \<^verbatim>\<open>total\<close>) accumulates
  \<^verbatim>\<open>int(digito) * peso_inicial\<close> while the weight goes down by one per character.
\<close>

fun soma_pesos :: "string \<Rightarrow> int \<Rightarrow> int \<Rightarrow> int" where
  "soma_pesos [] peso tot = tot"
| "soma_pesos (digito # ds) peso tot =
     soma_pesos ds (peso - 1) (tot + int_digito digito * peso)"

definition calcular_digito :: "string \<Rightarrow> int \<Rightarrow> string" where
  "calcular_digito cpf_parcial peso_inicial =
     (let tot = soma_pesos cpf_parcial peso_inicial 0;
          resto = tot mod 11
      in if resto < 2 then ''0'' else py_str (11 - resto))"

text \<open>
  \<^verbatim>\<open>re.sub(r'\D', '', cpf)\<close> keeps the digits. The test \<^verbatim>\<open>len(cpf) != 11 or cpf == cpf[0] * 11\<close>
  short-circuits, so \<^verbatim>\<open>cpf[0]\<close> is only read on a string of length 11.
\<close>

definition validar_cpf :: "string \<Rightarrow> bool" where
  "validar_cpf cpf0 =
     (let cpf = filter is_digit cpf0
      in if length cpf \<noteq> 11 then False
         else if cpf = replicate 11 (cpf ! 0) then False
         else (let digito1 = calcular_digito (take 9 cpf) 10;
                   digito2 = calcular_digito (take 9 cpf @ digito1) 11
               in drop (length cpf - 2) cpf = digito1 @ digito2))"

text \<open>
  The check digit in the words of the specification: the weighted sum of a sequence of
  digit values (weights from \<open>w\<close> down to 2) modulo 11, turned into 0 when the remainder is
  below 2 and into 11 minus the remainder otherwise.
\<close>

definition check_digit_spec :: "int list \<Rightarrow> nat \<Rightarrow> int" where
  "check_digit_spec ds w =
     (let r = sum_list (map (\<lambda>(d, p). d * int p) (zip ds (rev [2 ..< Suc w]))) mod 11
      in if r < 2 then 0 else 11 - r)"

subsection \<open>The validator on Unicode text\<close>

text \<open>
  A Python \<open>str\<close> holds Unicode code points, and three steps of \<^verbatim>\<open>validar_cpf\<close> see more than
  the ASCII digits: \<^verbatim>\<open>re.sub(r'\D', '', cpf)\<close> keeps every Unicode decimal digit, \<^verbatim>\<open>int(digito)\<close>
  reads the value of any of them, and the two comparisons (\<^verbatim>\<open>cpf == cpf[0] * 11\<close> and
  \<^verbatim>\<open>cpf[-2:] == digito1 + digito2\<close>) compare characters, where \<^verbatim>\<open>str(11 - resto)\<close> is made of
  ASCII digits. Here a text is a list of code points, written as integers. The ASCII digits 48 to 57 have the
  values 0 to 9; the table \<open>U\<close> of the decimal digits outside ASCII (code point to value) is
  a parameter, since it belongs to the Unicode database and not to the repository.
  \<^verbatim>\<open>int\<close> raises \<^verbatim>\<open>ValueError\<close> on a character that is no digit: the result \<open>None\<close>.
\<close>

definition digito_unicode :: "(int \<Rightarrow> int option) \<Rightarrow> int \<Rightarrow> int option" where
  "digito_unicode U c = (if 48 \<le> c \<and> c \<le> 57 then Some (c - 48) else U c)"

definition is_nd :: "(int \<Rightarrow> int option) \<Rightarrow> int \<Rightarrow> bool" where
  "is_nd U c = (digito_unicode U c \<noteq> None)"

fun soma_pesos_unicode :: "(int \<Rightarrow> int option) \<Rightarrow> int list \<Rightarrow> int \<Rightarrow> int \<Rightarrow> int option" where
  "soma_pesos_unicode U [] peso tot = Some tot"
| "soma_pesos_unicode U (digito # ds) peso tot =
     (case digito_unicode U digito of
        None \<Rightarrow> None
      | Some d \<Rightarrow> soma_pesos_unicode U ds (peso - 1) (tot + d * peso))"

definition calcular_digito_unicode ::
  "(int \<Rightarrow> int option) \<Rightarrow> int list \<Rightarrow> int \<Rightarrow> int list option" where
  "calcular_digito_unicode U cpf_parcial peso_inicial =
     (case soma_pesos_unicode U cpf_parcial peso_inicial 0 of
        None \<Rightarrow> None
      | Some tot \<Rightarrow>
          (let resto = tot mod 11
           in Some (if resto < 2 then map of_char ''0'' else map of_char (py_str (11 - resto)))))"

definition validar_cpf_unicode :: "(int \<Rightarrow> int option) \<Rightarrow> int list \<Rightarrow> bool option" where
  "validar_cpf_unicode U cpf0 =
     (let cpf = filter (is_nd U) cpf0
      in if length cpf \<noteq> 11 then Some False
         else if cpf = replicate 11 (cpf ! 0) then Some False
         else (case calcular_digito_unicode U (take 9 cpf) 10 of
                 None \<Rightarrow> None
               | Some digito1 \<Rightarrow>
                   (case calcular_digito_unicode U (take 9 cpf @ digito1) 11 of
                      None \<Rightarrow> None
                    | Some digito2 \<Rightarrow> Some (drop (length cpf - 2) cpf = digito1 @ digito2))))"

text \<open>
  The claim as it is stated, read on the values of the digits: reject when fewer than 11
  digits remain or when their values are all identical; otherwise accept iff the values of
  the last two digits are check digit 1 and check digit 2.
\<close>

definition valor_digito :: "(int \<Rightarrow> int option) \<Rightarrow> int \<Rightarrow> int" where
  "valor_digito U c = (case digito_unicode U c of Some d \<Rightarrow> d | None \<Rightarrow> 0)"

definition validar_cpf_claimed :: "(int \<Rightarrow> int option) \<Rightarrow> int list \<Rightarrow> bool" where
  "validar_cpf_claimed U s =
     (let ds = map (valor_digito U) (filter (is_nd U) s)
      in if length ds < 11 \<or> ds = replicate 11 (hd ds) then False
         else (let d1 = check_digit_spec (take 9 ds) 10;
                   d2 = check_digit_spec (take 9 ds @ [d1]) 11
               in drop (length ds - 2) ds = [d1, d2]))"

text \<open>
  The amended rule: exactly 11 digits remain, they are not 11 times the same character, and
  the last two characters are the ASCII digits of check digit 1 and of check digit 2, both
  computed on the values of the digits.
\<close>

definition validar_cpf_emendado :: "(int \<Rightarrow> int option) \<Rightarrow> int list \<Rightarrow> bool" where
  "validar_cpf_emendado U s =
     (let cs = filter (is_nd U) s; ds = map (valor_digito U) cs
      in length cs = 11 \<and> cs \<noteq> replicate 11 (hd cs) \<and>
         (let d1 = check_digit_spec (take 9 ds) 10;
              d2 = check_digit_spec (take 9 ds @ [d1]) 11
          in drop 9 cs = [48 + d1, 48 + d2]))"

text \<open>
  Two rows of the Unicode table, to evaluate the model on non-ASCII digits: the
  Arabic-Indic digits (code points 1632 to 1641) and the fullwidth digits (65296 to 65305).
\<close>

definition digitos_exemplo :: "int \<Rightarrow> int option" where
  "digitos_exemplo c =
     (if 1632 \<le> c \<and> c \<le> 1641 then Some (c - 1632)
      else if 65296 \<le> c \<and> c \<le> 65305 then Some (c - 65296)
      else None)"

section \<open>Field extractors\<close>

subsection \<open>Regular expressions\<close>

text \<open>
  A pattern that is a sequence of one-character classes matches at the start of a text when
  each class holds of the character at its place. \<open>re_search\<close> tries a matcher at every
  position from the left, as \<^verbatim>\<open>re.search\<close> does, and returns what the first match yields.
\<close>

type_synonym classe = "char \<Rightarrow> bool"

definition lit :: "char \<Rightarrow> classe" where
  "lit c = (\<lambda>x. x = c)"

fun casa_prefixo :: "classe list \<Rightarrow> string \<Rightarrow> bool" where
  "casa_prefixo [] s = True"
| "casa_prefixo (p # ps) [] = False"
| "casa_prefixo (p # ps) (c # cs) = (p c \<and> casa_prefixo ps cs)"

definition casa_fixo :: "classe list \<Rightarrow> string \<Rightarrow> string option" where
  "casa_fixo p s = (if casa_prefixo p s then Some (take (length p) s) else None)"

fun re_search :: "(string \<Rightarrow> 'a option) \<Rightarrow> string \<Rightarrow> 'a option" where
  "re_search m [] = m []"
| "re_search m (c # cs) = (case m (c # cs) of Some r \<Rightarrow> Some r | None \<Rightarrow> re_search m cs)"

text \<open>The sentinel \<^verbatim>\<open>"Nao encontrado"\<close>, whose second letter is a with tilde (code point 227).\<close>

definition nao_encontrado :: string where
  "nao_encontrado = ''N'' @ [CHR 0xE3] @ ''o encontrado''"

subsection \<open>\<^verbatim>\<open>extrair_cpf\<close>\<close>

text \<open>\<^verbatim>\<open>padrao = r'(\d{3}\.\d{3}\.\d{3}-\d{2})'\<close> and \<^verbatim>\<open>padrao2 = r'(\d{11})'\<close>.\<close>

definition padrao_cpf :: "classe list" where
  "padrao_cpf =
     [is_digit, is_digit, is_digit, lit CHR ''.'', is_digit, is_digit, is_digit, lit CHR ''.'',
      is_digit, is_digit, is_digit, lit CHR ''-'', is_digit, is_digit]"

definition padrao_cpf2 :: "classe list" where
  "padrao_cpf2 = replicate 11 is_digit"

text \<open>
  The f-string of the fallback: \<^verbatim>\<open>g[:3] + "." + g[3:6] + "." + g[6:9] + "-" + g[9:]\<close>.
\<close>

definition formatar_cpf :: "string \<Rightarrow> string" where
  "formatar_cpf g = take 3 g @ ''.'' @ take 3 (drop 3 g) @ ''.'' @ take 3 (drop 6 g) @ ''-'' @ drop 9 g"

definition extrair_cpf :: "string \<Rightarrow> string" where
  "extrair_cpf texto =
     (case re_search (casa_fixo padrao_cpf) texto of
        Some resultado \<Rightarrow> resultado
      | None \<Rightarrow>
          (case re_search (casa_fixo padrao_cpf2) texto of
             Some resultado2 \<Rightarrow> formatar_cpf resultado2
           | None \<Rightarrow> nao_encontrado))"

subsection \<open>\<^verbatim>\<open>extrair_nome\<close>\<close>

text \<open>
  The pattern is the label \<^verbatim>\<open>Nome:\<close>, then \<^verbatim>\<open>\s*\<close>, then a group of one or more characters
  that are ASCII letters, characters from code point 192 (A with grave) to 255 (y with
  diaeresis), or white space; it is compiled with \<^verbatim>\<open>re.IGNORECASE\<close>. After the label, the
  class of the group holds of a maximal run of characters. The greedy \<^verbatim>\<open>\s*\<close> takes the
  leading white space of the run and the group is the rest; when the run is white space
  only, \<^verbatim>\<open>\s*\<close> gives its last character back to the group.
\<close>

definition is_nome_char :: classe where
  "is_nome_char c =
     ((CHR ''A'' \<le> c \<and> c \<le> CHR ''Z'') \<or> (CHR ''a'' \<le> c \<and> c \<le> CHR ''z'') \<or>
      CHR 0xC0 \<le> c \<or> is_space c)"

definition rotulo_nome :: "classe list" where
  "rotulo_nome =
     [\<lambda>c. c = CHR ''N'' \<or> c = CHR ''n'', \<lambda>c. c = CHR ''O'' \<or> c = CHR ''o'',
      \<lambda>c. c = CHR ''M'' \<or> c = CHR ''m'', \<lambda>c. c = CHR ''E'' \<or> c = CHR ''e'', lit CHR '':'']"

definition casa_nome :: "string \<Rightarrow> string option" where
  "casa_nome s =
     (if casa_prefixo rotulo_nome s then
        (let run = takeWhile is_nome_char (drop 5 s);
             grupo = dropWhile is_space run
         in if run = [] then None
            else if grupo = [] then Some [last run]
            else Some grupo)
      else None)"

definition py_strip :: "string \<Rightarrow> string" where
  "py_strip s = rev (dropWhile is_space (rev (dropWhile is_space s)))"

definition extrair_nome :: "'f pylib \<Rightarrow> string \<Rightarrow> string" where
  "extrair_nome L texto =
     (case re_search casa_nome texto of
        Some grupo \<Rightarrow> py_title L (py_strip grupo)
      | None \<Rightarrow> nao_encontrado)"

subsection \<open>\<^verbatim>\<open>extrair_pis\<close>\<close>

text \<open>\<^verbatim>\<open>padrao = r'(PIS\/PASEP[:\s]*\d{3}\.\d{5}\.\d{2}-\d{1})'\<close>: the group is the whole match.\<close>

definition padrao_pis_numero :: "classe list" where
  "padrao_pis_numero =
     [is_digit, is_digit, is_digit, lit CHR ''.'', is_digit, is_digit, is_digit, is_digit,
      is_digit, lit CHR ''.'', is_digit, is_digit, lit CHR ''-'', is_digit]"

definition casa_pis :: "string \<Rightarrow> string option" where
  "casa_pis s =
     (if casa_prefixo (map lit ''PIS/PASEP'') s then
        (let sep = takeWhile (\<lambda>c. c = CHR '':'' \<or> is_space c) (drop 9 s);
             r = dropWhile (\<lambda>c. c = CHR '':'' \<or> is_space c) (drop 9 s)
         in if casa_prefixo padrao_pis_numero r then Some (take 9 s @ sep @ take 14 r) else None)
      else None)"

definition extrair_pis :: "string \<Rightarrow> string" where
  "extrair_pis texto =
     (case re_search casa_pis texto of Some resultado \<Rightarrow> resultado | None \<Rightarrow> nao_encontrado)"

subsection \<open>\<^verbatim>\<open>extrair_contribuicoes\<close>\<close>

text \<open>
  \<^verbatim>\<open>padrao = r'(\d{4}-\d{2}):\s*([\d.,]+)'\<close>. A match at the start of a text yields the two
  groups and the text after the match. White space and the characters of the amount are
  disjoint classes, so both greedy repetitions take maximal runs.
\<close>

definition padrao_data :: "classe list" where
  "padrao_data =
     [is_digit, is_digit, is_digit, is_digit, lit CHR ''-'', is_digit, is_digit, lit CHR '':'']"

definition is_valor_char :: classe where
  "is_valor_char c = (is_digit c \<or> c = CHR ''.'' \<or> c = CHR '','')"

definition casa_contrib :: "string \<Rightarrow> (string \<times> string \<times> string) option" where
  "casa_contrib s =
     (if casa_prefixo padrao_data s then
        (let r = dropWhile is_space (drop 8 s);
             valor_str = takeWhile is_valor_char r
         in if valor_str = [] then None
            else Some (take 7 s, valor_str, dropWhile is_valor_char r))
      else None)"

lemma casa_contrib_shorter:
  "casa_contrib s = Some (data_str, valor_str, resto) \<Longrightarrow> length resto < length s"
proof -
  assume a: "casa_contrib s = Some (data_str, valor_str, resto)"
  define r where "r = dropWhile is_space (drop 8 s)"
  have v: "takeWhile is_valor_char r \<noteq> []" and re: "resto = dropWhile is_valor_char r"
    using a unfolding casa_contrib_def Let_def r_def by (auto split: if_splits)
  have "length (dropWhile is_valor_char r) < length r"
    using v by (cases r) (auto simp: le_imp_less_Suc length_dropWhile_le split: if_splits)
  moreover have "length r \<le> length s"
    unfolding r_def using length_dropWhile_le[of is_space "drop 8 s"] by simp
  ultimately show ?thesis using re by simp
qed

text \<open>
  \<^verbatim>\<open>re.findall(padrao, texto)\<close>: the pairs of groups of the successive matches, each search
  starting where the match before it ended.
\<close>

function findall_contrib :: "string \<Rightarrow> (string \<times> string) list" where
  "findall_contrib [] = []"
| "findall_contrib (c # cs) =
     (case casa_contrib (c # cs) of
        Some (data_str, valor_str, resto) \<Rightarrow> (data_str, valor_str) # findall_contrib resto
      | None \<Rightarrow> findall_contrib cs)"
  by pat_completeness auto
termination
  by (relation "measure length") (auto dest: casa_contrib_shorter)

text \<open>\<^verbatim>\<open>valor_str.replace('.', '').replace(',', '.')\<close>\<close>

definition normalizar_valor :: "string \<Rightarrow> string" where
  "normalizar_valor valor_str =
     map (\<lambda>c. if c = CHR '','' then CHR ''.'' else c) (filter (\<lambda>c. c \<noteq> CHR ''.'') valor_str)"

text \<open>
  The loop over the matches. A dictionary is an association list in insertion order:
  \<open>AList.update\<close> replaces the value of a key that is present, in place, and appends a new
  key at the end. A numeral on which \<^verbatim>\<open>float\<close> raises is skipped by the \<^verbatim>\<open>except\<close> branch.
\<close>

fun registrar_contribs ::
  "'f pylib \<Rightarrow> (string \<times> string) list \<Rightarrow> (string \<times> 'f) list \<Rightarrow> (string \<times> 'f) list" where
  "registrar_contribs L [] contribs = contribs"
| "registrar_contribs L ((data_str, valor_str) # matches) contribs =
     (case py_float L (normalizar_valor valor_str) of
        Some valor \<Rightarrow>
          registrar_contribs L matches (AList.update data_str (py_round2 L valor) contribs)
      | None \<Rightarrow> registrar_contribs L matches contribs)"

definition extrair_contribuicoes :: "'f pylib \<Rightarrow> string \<Rightarrow> (string \<times> 'f) list" where
  "extrair_contribuicoes L texto = registrar_contribs L (findall_contrib texto) []"

subsection \<open>The tax-ID extractor in the words of the specification\<close>

text \<open>
  \<open>posicoes p t\<close> lists, in increasing order, the positions of the text \<open>t\<close> at which the
  pattern \<open>p\<close> matches. The specification returns the first match of the punctuated
  pattern when there is one; otherwise the first run of 11 digits, reformatted; otherwise
  the sentinel.
\<close>

definition posicoes :: "classe list \<Rightarrow> string \<Rightarrow> nat list" where
  "posicoes p t = filter (\<lambda>i. casa_prefixo p (drop i t)) [0 ..< Suc (length t)]"

definition extrair_cpf_spec :: "string \<Rightarrow> string" where
  "extrair_cpf_spec t =
     (case posicoes padrao_cpf t of
        i # _ \<Rightarrow> take 14 (drop i t)
      | [] \<Rightarrow>
          (case posicoes padrao_cpf2 t of
             i # _ \<Rightarrow> formatar_cpf (take 11 (drop i t))
           | [] \<Rightarrow> nao_encontrado))"

subsection \<open>The contribution extractor in the words of the specification\<close>

text \<open>
  A year-month key has the form of four digits, a dash and two digits. The occurrences of
  the pattern whose amount parses, in the order of the text, each with its key and its
  amount normalised (dots stripped, comma turned into a decimal point), parsed and rounded
  to two places.
\<close>

definition formato_data :: "string \<Rightarrow> bool" where
  "formato_data d =
     (length d = 7 \<and>
      casa_prefixo [is_digit, is_digit, is_digit, is_digit, lit CHR ''-'', is_digit, is_digit] d)"

definition ocorrencias_validas :: "'f pylib \<Rightarrow> string \<Rightarrow> (string \<times> 'f) list" where
  "ocorrencias_validas L texto =
     List.map_filter
       (\<lambda>(d, v). map_option (\<lambda>x. (d, py_round2 L x)) (py_float L (normalizar_valor v)))
       (findall_contrib texto)"

section \<open>Values, dictionaries and exceptions\<close>

text \<open>
  The records of the program are dictionaries with string keys whose values are \<^verbatim>\<open>None\<close>,
  booleans, strings, floats, lists and dictionaries. A dictionary is an association list in
  insertion order with distinct keys. \<open>py_get d k\<close> is \<^verbatim>\<open>d.get(k)\<close>, \<open>py_get_default d k v\<close>
  is \<^verbatim>\<open>d.get(k, v)\<close> and \<open>truthy\<close> is the truth value that \<^verbatim>\<open>if\<close> and \<^verbatim>\<open>not\<close> test.
\<close>

datatype 'f pyval =
    PNone
  | PBool bool
  | PStr string
  | PFloat 'f
  | PList "'f pyval list"
  | PDict "(string \<times> 'f pyval) list"

type_synonym 'f pydict = "(string \<times> 'f pyval) list"

datatype py_error = NameError string | AttributeError string | TypeError string | OSError string

definition py_get :: "'f pydict \<Rightarrow> string \<Rightarrow> 'f pyval" where
  "py_get d k = (case map_of d k of Some v \<Rightarrow> v | None \<Rightarrow> PNone)"

definition py_get_default :: "'f pydict \<Rightarrow> string \<Rightarrow> 'f pyval \<Rightarrow> 'f pyval" where
  "py_get_default d k v0 = (case map_of d k of Some v \<Rightarrow> v | None \<Rightarrow> v0)"

fun truthy :: "'f pylib \<Rightarrow> 'f pyval \<Rightarrow> bool" where
  "truthy L PNone = False"
| "truthy L (PBool b) = b"
| "truthy L (PStr s) = (s \<noteq> [])"
| "truthy L (PFloat x) = py_bool_float L x"
| "truthy L (PList xs) = (xs \<noteq> [])"
| "truthy L (PDict d) = (d \<noteq> [])"

section \<open>Benefit estimate: \<^verbatim>\<open>calcular_beneficio\<close>\<close>

text \<open>
  The list comprehension of \<^verbatim>\<open>calcular_beneficio\<close> filters with \<^verbatim>\<open>data in contribs\<close>. The
  function has no parameter or local variable \<^verbatim>\<open>contribs\<close> (its parameter is
  \<^verbatim>\<open>contribuicoes\<close>), the module binds no global of that name (the three other functions
  that use the name bind it locally), and it is no builtin: looking the name up raises
  \<^verbatim>\<open>NameError\<close>. The condition is evaluated for the first element of \<^verbatim>\<open>datas\<close>.
\<close>

definition global_contribs :: "py_error + (string \<times> 'f) list" where
  "global_contribs = Inl (NameError ''contribs'')"

fun valores_de :: "(string \<times> 'f) list \<Rightarrow> string list \<Rightarrow> py_error + 'f list" where
  "valores_de contribuicoes [] = Inr []"
| "valores_de contribuicoes (data # datas) =
     (case (global_contribs :: py_error + (string \<times> 'f) list) of
        Inl e \<Rightarrow> Inl e
      | Inr contribs \<Rightarrow>
          (case valores_de contribuicoes datas of
             Inl e \<Rightarrow> Inl e
           | Inr valores \<Rightarrow>
               Inr (if map_of contribs data \<noteq> None
                    then (case map_of contribuicoes data of
                            Some v \<Rightarrow> v # valores
                          | None \<Rightarrow> valores)
                    else valores)))"

text \<open>
  \<^verbatim>\<open>sorted(contribuicoes.keys(), reverse=True)[:12]\<close>: the keys of a dictionary are distinct,
  so the descending order is the reverse of the ascending one. Strings are ordered
  lexicographically by code point. The result is \<^verbatim>\<open>None\<close> or a float.
\<close>

definition calcular_beneficio :: "'f pylib \<Rightarrow> (string \<times> 'f) list \<Rightarrow> py_error + 'f option" where
  "calcular_beneficio L contribuicoes =
     (if contribuicoes = [] then Inr None
      else (let datas = take 12 (rev (sort (map fst contribuicoes)))
            in case valores_de contribuicoes datas of
                 Inl e \<Rightarrow> Inl e
               | Inr valores \<Rightarrow>
                   if valores = [] then Inr None
                   else (let media = py_div L (py_sum L valores) (length valores)
                         in Inr (Some (py_round2 L (py_max L media (salario_min L)))))))"

text \<open>
  The estimator in the words of the specification: absent for the empty mapping; otherwise
  the mean of the amounts of the (up to) 12 most recent keys, floored at the minimum wage,
  rounded to two places.
\<close>

definition calcular_beneficio_spec :: "'f pylib \<Rightarrow> (string \<times> 'f) list \<Rightarrow> 'f option" where
  "calcular_beneficio_spec L contribuicoes =
     (if contribuicoes = [] then None
      else (let datas = take 12 (rev (sort (map fst contribuicoes)));
                valores = List.map_filter (map_of contribuicoes) datas
            in Some (py_round2 L (py_max L (py_div L (py_sum L valores) (length valores))
                                    (salario_min L)))))"

section \<open>Eligibility, required documents and approval\<close>

text \<open>
  \<^verbatim>\<open>len(x)\<close> is defined for strings, lists and dictionaries and raises \<^verbatim>\<open>TypeError\<close> for the
  other values.
\<close>

definition py_len :: "'f pyval \<Rightarrow> py_error + nat" where
  "py_len v =
     (case v of
        PStr s \<Rightarrow> Inr (length s)
      | PList xs \<Rightarrow> Inr (length xs)
      | PDict d \<Rightarrow> Inr (length d)
      | _ \<Rightarrow> Inl (TypeError ''len''))"

text \<open>
  The two messages of \<^verbatim>\<open>verificar_elegibilidade\<close>; their accented letters are written by
  code point (a with tilde 227, a with acute 225, E with acute 201, i with acute 237).
\<close>

definition mensagem_nao_apta :: string where
  "mensagem_nao_apta =
     ''A cliente n'' @ [CHR 0xE3] @ ''o est'' @ [CHR 0xE1] @ '' apta a prosseguir. '' @ [CHR 0xC9] @
     '' necess'' @ [CHR 0xE1] @ ''rio ter contribu'' @ [CHR 0xED] @ ''do por 12 meses.''"

definition mensagem_apta :: string where
  "mensagem_apta = ''A cliente est'' @ [CHR 0xE1] @ '' apta a prosseguir.''"

definition verificar_elegibilidade :: "'f pydict \<Rightarrow> py_error + 'f pydict" where
  "verificar_elegibilidade dados =
     (case py_len (py_get_default dados ''contribuicoes'' (PDict [])) of
        Inl e \<Rightarrow> Inl e
      | Inr n \<Rightarrow>
          (let pagou_12 = (12 \<le> n)
           in Inr [(''pagou_12_meses'', PBool pagou_12),
                   (''qualidade_segurada'', PBool True),
                   (''dentro_prazo'', PBool True),
                   (''mensagem'', PStr (if \<not> pagou_12 then mensagem_nao_apta else mensagem_apta))]))"

definition verificar_documentos_obrigatorios :: "'f pylib \<Rightarrow> 'f pydict \<Rightarrow> string list" where
  "verificar_documentos_obrigatorios L dados =
     (let ocupacao = py_get_default dados ''ocupacao'' (PStr '''');
          obrigatorios = [''rg'', ''certidao'', ''cnis'', ''pis''] @
                         (if ocupacao = PStr ''MEI'' then [''mei''] else [])
      in map upper_ascii (filter (\<lambda>doc. \<not> truthy L (py_get dados doc)) obrigatorios))"

text \<open>
  The four results of \<^verbatim>\<open>calcular_aprovacao\<close> and the occupation \<^verbatim>\<open>Autonoma\<close> (o with
  circumflex, code point 244).
\<close>

definition beneficio_improvavel :: string where
  "beneficio_improvavel = ''Benef'' @ [CHR 0xED] @ ''cio Improv'' @ [CHR 0xE1] @ ''vel''"

definition pouco_provavel :: string where
  "pouco_provavel = ''Pouco prov'' @ [CHR 0xE1] @ ''vel''"

definition provavel :: string where
  "provavel = ''Prov'' @ [CHR 0xE1] @ ''vel''"

definition muito_provavel :: string where
  "muito_provavel = ''Muito prov'' @ [CHR 0xE1] @ ''vel''"

definition autonoma :: string where
  "autonoma = ''Aut'' @ [CHR 0xF4] @ ''noma''"

text \<open>
  \<^verbatim>\<open>calcular_aprovacao\<close> in two steps: the score, then its tier. The score is the integer 0
  plus integers and the float 0.5; these sums and the comparisons with 2, 3 and 4 are exact
  in floating point, so the score is a rational number. \<^verbatim>\<open>dados.get("elegibilidade", {})\<close>
  is read first, and \<^verbatim>\<open>.get\<close> on a value that is no dictionary raises
  \<^verbatim>\<open>AttributeError\<close>.
\<close>

definition pontuacao :: "'f pylib \<Rightarrow> 'f pydict \<Rightarrow> 'f pyval \<Rightarrow> py_error + rat" where
  "pontuacao L dados ocupacao =
     (case py_get_default dados ''elegibilidade'' (PDict []) of
        PDict elegibilidade \<Rightarrow>
          Inr ((if truthy L (py_get elegibilidade ''pagou_12_meses'') then 2 else 0)
               + (if truthy L (py_get dados ''cpf_valido'') then 1 else 0)
               + (if verificar_documentos_obrigatorios L dados = [] then 1 else 0)
               + (if ocupacao = PStr ''CLT'' then 1
                  else if ocupacao \<in> set [PStr ''MEI'', PStr autonoma, PStr ''Desempregada'']
                  then 1 / 2 else 0))
      | _ \<Rightarrow> Inl (AttributeError ''get''))"

definition faixa :: "rat \<Rightarrow> string" where
  "faixa score =
     (if score < 2 then beneficio_improvavel
      else if score < 3 then pouco_provavel
      else if score < 4 then provavel
      else muito_provavel)"

definition calcular_aprovacao :: "'f pylib \<Rightarrow> 'f pydict \<Rightarrow> 'f pyval \<Rightarrow> py_error + string" where
  "calcular_aprovacao L dados ocupacao =
     (case pontuacao L dados ocupacao of Inl e \<Rightarrow> Inl e | Inr score \<Rightarrow> Inr (faixa score))"





section \<open>Uploaded files\<close>

text \<open>
  What a stored file is to the program: its size (\<^verbatim>\<open>os.path.getsize\<close>) and what
  \<^verbatim>\<open>pdfplumber\<close> reads from it, \<open>None\<close> when opening it raises and otherwise, page by page,
  the extracted text (empty when \<^verbatim>\<open>extract_text()\<close> returns \<^verbatim>\<open>None\<close> or the empty string) or
  \<open>None\<close> when \<^verbatim>\<open>extract_text()\<close> raises. The file system is a map from paths to stored
  files; it is the state that the pipeline reads and writes. An upload is a file name and
  the content that \<^verbatim>\<open>file.save\<close> stores. Saving and renaming are taken to succeed.
\<close>

record arquivo =
  tamanho :: nat
  paginas :: "string option list option"

type_synonym fsys = "string \<Rightarrow> arquivo option"

record upload =
  filename :: string
  stream :: arquivo

text \<open>
  \<^verbatim>\<open>os.path.join\<close> of two components, \<^verbatim>\<open>os.path.splitext(p)[1]\<close>, \<^verbatim>\<open>os.path.dirname\<close> and
  \<^verbatim>\<open>p.split(os.sep)[-1]\<close> on POSIX paths.
\<close>

definition path_join :: "string \<Rightarrow> string \<Rightarrow> string" where
  "path_join a b =
     (if b \<noteq> [] \<and> hd b = CHR ''/'' then b
      else if a = [] \<or> last a = CHR ''/'' then a @ b
      else a @ ''/'' @ b)"

definition ultimo_componente :: "string \<Rightarrow> string" where
  "ultimo_componente p = rev (takeWhile (\<lambda>c. c \<noteq> CHR ''/'') (rev p))"

definition splitext_ext :: "string \<Rightarrow> string" where
  "splitext_ext p =
     (let b = ultimo_componente p;
          ext_rev = takeWhile (\<lambda>c. c \<noteq> CHR ''.'') (rev b);
          stem = take (length b - length ext_rev - 1) b
      in if CHR ''.'' \<notin> set b then []
         else if filter (\<lambda>c. c \<noteq> CHR ''.'') stem = [] then []
         else CHR ''.'' # rev ext_rev)"

definition dirname_de :: "string \<Rightarrow> string" where
  "dirname_de p =
     (let head = take (length p - length (ultimo_componente p)) p
      in if head \<noteq> [] \<and> filter (\<lambda>c. c \<noteq> CHR ''/'') head \<noteq> []
         then rev (dropWhile (\<lambda>c. c = CHR ''/'') (rev head))
         else head)"

subsection \<open>\<^verbatim>\<open>extrair_texto_pdf\<close>, \<^verbatim>\<open>extrair_texto\<close>, \<^verbatim>\<open>validar_arquivo\<close>, \<^verbatim>\<open>verificar_qualidade_texto\<close>\<close>

text \<open>
  The loop over the pages, at most \<^verbatim>\<open>max_paginas = 5\<close> of them: a page with text appends the
  text and a newline; an exception leaves the loop through the \<^verbatim>\<open>except\<close> branch with the
  text read so far. A missing file makes \<^verbatim>\<open>pdfplumber.open\<close> raise.
\<close>

fun texto_paginas :: "string option list \<Rightarrow> string \<Rightarrow> string" where
  "texto_paginas [] texto = texto"
| "texto_paginas (None # ps) texto = texto"
| "texto_paginas (Some conteudo # ps) texto =
     texto_paginas ps (if conteudo \<noteq> [] then texto @ conteudo @ [CHR 0x0A] else texto)"

definition extrair_texto_pdf :: "fsys \<Rightarrow> string \<Rightarrow> string" where
  "extrair_texto_pdf fs caminho_arquivo =
     (case fs caminho_arquivo of
        None \<Rightarrow> []
      | Some a \<Rightarrow> (case paginas a of None \<Rightarrow> [] | Some ps \<Rightarrow> texto_paginas (take 5 ps) []))"

definition formato_nao_suportado :: string where
  "formato_nao_suportado = ''Formato n'' @ [CHR 0xE3] @ ''o suportado. Envie um PDF.''"

definition extrair_texto :: "fsys \<Rightarrow> string \<Rightarrow> string" where
  "extrair_texto fs caminho_arquivo =
     (if py_lower (splitext_ext caminho_arquivo) = ''.pdf''
      then extrair_texto_pdf fs caminho_arquivo
      else formato_nao_suportado)"

definition max_content_length :: nat where
  "max_content_length = 5 * 1024 * 1024"

text \<open>
  \<^verbatim>\<open>validar_arquivo\<close> returns a verdict and a message; the message is only logged, so the
  model keeps the verdict. \<^verbatim>\<open>os.path.getsize\<close> raises \<^verbatim>\<open>OSError\<close> on a missing file.
\<close>

definition validar_arquivo :: "fsys \<Rightarrow> string \<Rightarrow> py_error + bool" where
  "validar_arquivo fs caminho_arquivo =
     (case fs caminho_arquivo of
        None \<Rightarrow> Inl (OSError ''getsize'')
      | Some a \<Rightarrow>
          Inr (if tamanho a > max_content_length then False
               else if py_lower (splitext_ext caminho_arquivo) \<noteq> ''.pdf'' then False
               else if length (py_strip (extrair_texto fs caminho_arquivo)) < 50 then False
               else True))"

definition baixa_qualidade :: string where
  "baixa_qualidade = ''Baixa qualidade: texto insuficiente para an'' @ [CHR 0xE1] @ ''lise.''"

definition verificar_qualidade_texto :: "string \<Rightarrow> string" where
  "verificar_qualidade_texto texto =
     (if length (py_strip texto) < 50 then baixa_qualidade else ''OK'')"

subsection \<open>\<^verbatim>\<open>renomear_arquivo\<close>\<close>

text \<open>
  The new path is computed from the old one, the tax ID, the name and the document type;
  \<^verbatim>\<open>os.rename\<close> then moves the stored file, and an exception of it is caught and logged.
\<close>

definition is_alnum_ascii :: "char \<Rightarrow> bool" where
  "is_alnum_ascii c =
     ((CHR ''a'' \<le> c \<and> c \<le> CHR ''z'') \<or> (CHR ''A'' \<le> c \<and> c \<le> CHR ''Z'') \<or>
      (CHR ''0'' \<le> c \<and> c \<le> CHR ''9''))"

definition novo_caminho_de :: "string \<Rightarrow> string \<Rightarrow> string \<Rightarrow> string \<Rightarrow> string" where
  "novo_caminho_de caminho_arquivo cpf nome tipo_doc =
     (let diretorio = dirname_de caminho_arquivo;
          extensao = splitext_ext caminho_arquivo;
          cpf_limpo = filter is_digit cpf;
          nome_limpo = take 20 (filter is_alnum_ascii (py_lower nome));
          novo_nome = cpf_limpo @ ''_'' @ nome_limpo @ ''_'' @ py_lower tipo_doc @ extensao
      in path_join diretorio novo_nome)"

definition renomear_arquivo ::
  "fsys \<Rightarrow> string \<Rightarrow> string \<Rightarrow> string \<Rightarrow> string \<Rightarrow> string \<times> fsys" where
  "renomear_arquivo fs caminho_arquivo cpf nome tipo_doc =
     (let novo_caminho = novo_caminho_de caminho_arquivo cpf nome tipo_doc
      in (novo_caminho,
          case fs caminho_arquivo of
            None \<Rightarrow> fs
          | Some a \<Rightarrow> (fs(caminho_arquivo := None))(novo_caminho \<mapsto> a)))"

section \<open>The pipeline: \<^verbatim>\<open>processar_documentos\<close> and \<^verbatim>\<open>gerar_relatorio\<close>\<close>

text \<open>
  The request carries \<^verbatim>\<open>form_files\<close>, from field names to uploads, and \<^verbatim>\<open>form_data\<close>, from
  field names to strings; \<^verbatim>\<open>.get\<close> finds the first entry of a name. An upload is true in
  \<^verbatim>\<open>if file:\<close> when its file name is not empty.

  The state of the loop is the file system, \<^verbatim>\<open>dados_aggregados\<close> and
  \<^verbatim>\<open>documentos_processados\<close>. \<open>py_update\<close> is \<^verbatim>\<open>dict.update\<close>; \<open>floats_dict\<close> stores a
  dictionary of floats as a value and \<open>floats_de\<close> reads it back.
\<close>

definition py_update :: "'f pydict \<Rightarrow> 'f pydict \<Rightarrow> 'f pydict" where
  "py_update d e = fold (\<lambda>(k, v). AList.update k v) e d"

definition floats_dict :: "(string \<times> 'f) list \<Rightarrow> 'f pydict" where
  "floats_dict contribs = map (\<lambda>(k, v). (k, PFloat v)) contribs"

definition floats_de :: "'f pydict \<Rightarrow> (string \<times> 'f) list" where
  "floats_de d = List.map_filter (\<lambda>(k, v). case v of PFloat x \<Rightarrow> Some (k, x) | _ \<Rightarrow> None) d"

definition enviado :: string where
  "enviado = ''Enviado''"

text \<open>
  Lines 245 to 265: what one valid document adds to its own entry \<^verbatim>\<open>info_doc\<close> and to
  \<^verbatim>\<open>dados_aggregados\<close>. \<^verbatim>\<open>if cpf:\<close> tests that the extracted string is not empty.
  \<^verbatim>\<open>setdefault("contribuicoes", {})\<close> returns the stored value or stores the empty
  dictionary, and \<^verbatim>\<open>.update\<close> exists on dictionaries only.
\<close>

definition extrair_campo ::
  "'f pylib \<Rightarrow> string \<Rightarrow> string \<Rightarrow> 'f pydict \<Rightarrow> 'f pydict \<Rightarrow> py_error + ('f pydict \<times> 'f pydict)" where
  "extrair_campo L campo texto info_doc dados_aggregados =
     (if campo \<in> set [''rg'', ''certidao''] then
        (let nome = extrair_nome L texto;
             info1 = AList.update ''nome'' (PStr nome) info_doc;
             dados1 = AList.update ''nome'' (PStr nome) dados_aggregados;
             cpf = extrair_cpf texto;
             info2 = AList.update ''cpf'' (PStr cpf) info1
         in if cpf \<noteq> [] then
              (let info3 = AList.update ''cpf_valido'' (PBool (validar_cpf cpf)) info2;
                   dados2 = AList.update ''cpf'' (PStr cpf) dados1;
                   dados3 = AList.update ''cpf_valido'' (py_get info3 ''cpf_valido'') dados2
               in Inr (info3, dados3))
            else Inr (info2, dados1))
      else if campo = ''cnis'' then
        (let contribs = floats_dict (extrair_contribuicoes L texto);
             info1 = AList.update ''contribuicoes'' (PDict contribs) info_doc
         in case map_of dados_aggregados ''contribuicoes'' of
              None \<Rightarrow>
                Inr (info1, AList.update ''contribuicoes'' (PDict (py_update [] contribs))
                              dados_aggregados)
            | Some (PDict d) \<Rightarrow>
                Inr (info1, AList.update ''contribuicoes'' (PDict (py_update d contribs))
                              dados_aggregados)
            | Some _ \<Rightarrow> Inl (AttributeError ''update''))
      else if campo = ''pis'' then
        (let pis = extrair_pis texto
         in Inr (AList.update ''pis'' (PStr pis) info_doc,
                 AList.update ''pis'' (PStr pis) dados_aggregados))
      else if campo = ''mei'' then
        Inr (AList.update ''mei'' (PStr enviado) info_doc,
             AList.update ''mei'' (PStr enviado) dados_aggregados)
      else Inr (info_doc, dados_aggregados))"

text \<open>
  Lines 266 to 269: when the aggregate holds a tax ID and a name, the stored file is
  renamed and the entry records the last component of the new path; the entry is appended
  to the processed documents. \<^verbatim>\<open>re.sub\<close> and \<^verbatim>\<open>.lower()\<close> in \<^verbatim>\<open>renomear_arquivo\<close> need
  strings.
\<close>

definition renomear_e_registrar ::
  "'f pylib \<Rightarrow> string \<Rightarrow> string \<Rightarrow> fsys \<Rightarrow> 'f pydict \<Rightarrow> 'f pydict \<Rightarrow> 'f pydict list \<Rightarrow>
   py_error + (fsys \<times> 'f pydict \<times> 'f pydict list)" where
  "renomear_e_registrar L campo caminho_temp fs info_doc dados_aggregados documentos_processados =
     (if truthy L (py_get dados_aggregados ''cpf'') \<and> truthy L (py_get dados_aggregados ''nome'')
      then (case (py_get dados_aggregados ''cpf'', py_get dados_aggregados ''nome'') of
              (PStr cpf, PStr nome) \<Rightarrow>
                (case renomear_arquivo fs caminho_temp cpf nome (upper_ascii campo) of
                   (novo_caminho, fs') \<Rightarrow>
                     Inr (fs', dados_aggregados,
                          documentos_processados @
                            [AList.update ''arquivo_renomeado''
                               (PStr (ultimo_componente novo_caminho)) info_doc]))
            | _ \<Rightarrow> Inl (TypeError ''renomear_arquivo''))
      else Inr (fs, dados_aggregados, documentos_processados @ [info_doc]))"

text \<open>
  The body of the loop for one field, lines 233 to 269: an absent or unnamed upload is
  passed over; the upload is saved under \<^verbatim>\<open>temp\<close>; an invalid file is passed over after
  saving (\<^verbatim>\<open>continue\<close>); a valid one is read, extracted, renamed and registered.
\<close>

definition processar_campo ::
  "'f pylib \<Rightarrow> (string \<times> upload) list \<Rightarrow> string \<Rightarrow> fsys \<times> 'f pydict \<times> 'f pydict list \<Rightarrow>
   py_error + (fsys \<times> 'f pydict \<times> 'f pydict list)" where
  "processar_campo L form_files campo st =
     (case st of (fs, dados_aggregados, documentos_processados) \<Rightarrow>
        (case map_of form_files campo of
           None \<Rightarrow> Inr st
         | Some file \<Rightarrow>
             if filename file = [] then Inr st
             else
               (let nome_arquivo = filename file;
                    caminho_temp = path_join ''temp'' nome_arquivo;
                    fs1 = fs(caminho_temp \<mapsto> stream file)
                in case validar_arquivo fs1 caminho_temp of
                     Inl e \<Rightarrow> Inl e
                   | Inr is_valid \<Rightarrow>
                       if \<not> is_valid then Inr (fs1, dados_aggregados, documentos_processados)
                       else
                         (let texto = extrair_texto fs1 caminho_temp;
                              qualidade = verificar_qualidade_texto texto;
                              info_doc = [(''tipo'', PStr (upper_ascii campo)),
                                          (''arquivo_original'', PStr nome_arquivo),
                                          (''qualidade'', PStr qualidade)]
                          in case extrair_campo L campo texto info_doc dados_aggregados of
                               Inl e \<Rightarrow> Inl e
                             | Inr (info_doc', dados') \<Rightarrow>
                                 renomear_e_registrar L campo caminho_temp fs1 info_doc' dados'
                                   documentos_processados))))"

fun processar_campos ::
  "'f pylib \<Rightarrow> (string \<times> upload) list \<Rightarrow> string list \<Rightarrow> fsys \<times> 'f pydict \<times> 'f pydict list \<Rightarrow>
   py_error + (fsys \<times> 'f pydict \<times> 'f pydict list)" where
  "processar_campos L form_files [] st = Inr st"
| "processar_campos L form_files (campo # campos) st =
     (case processar_campo L form_files campo st of
        Inl e \<Rightarrow> Inl e
      | Inr st' \<Rightarrow> processar_campos L form_files campos st')"

definition campos :: "string list" where
  "campos = [''rg'', ''certidao'', ''cnis'', ''pis'', ''mei'']"

text \<open>
  Lines 278 to 282: the names of the processed documents that are true and are not the
  sentinel, lower-cased; \<^verbatim>\<open>.lower()\<close> exists on strings only. The names are inconsistent
  when the list is not empty and its set has more than one element.
\<close>

fun nomes_de :: "'f pylib \<Rightarrow> 'f pydict list \<Rightarrow> py_error + string list" where
  "nomes_de L [] = Inr []"
| "nomes_de L (doc # docs) =
     (if truthy L (py_get doc ''nome'') \<and> py_get doc ''nome'' \<noteq> PStr nao_encontrado
      then (case py_get_default doc ''nome'' (PStr []) of
              PStr s \<Rightarrow>
                (case nomes_de L docs of Inl e \<Rightarrow> Inl e | Inr nomes \<Rightarrow> Inr (py_lower s # nomes))
            | _ \<Rightarrow> Inl (AttributeError ''lower''))
      else nomes_de L docs)"

definition inconsistencia :: string where
  "inconsistencia =
     ''Inconsist'' @ [CHR 0xEA] @ ''ncia nos nomes extra'' @ [CHR 0xED] @
     ''dos. Verifique manualmente.''"

definition consistencia_nomes :: "string list \<Rightarrow> string" where
  "consistencia_nomes nomes =
     (if nomes \<noteq> [] \<and> length (remdups nomes) > 1 then inconsistencia else ''OK'')"

text \<open>
  Lines 230 to 282: the loop from the empty aggregate, then the occupation, the benefit
  estimate, the processed documents and the name consistency. The result is the aggregate
  and the file system left behind, or the exception that ends the request.
\<close>

definition beneficio_de :: "'f pylib \<Rightarrow> 'f pydict \<Rightarrow> py_error + 'f pyval" where
  "beneficio_de L dados_aggregados =
     (case map_of dados_aggregados ''contribuicoes'' of
        None \<Rightarrow> Inr PNone
      | Some (PDict c) \<Rightarrow>
          (case calcular_beneficio L (floats_de c) of
             Inl e \<Rightarrow> Inl e
           | Inr None \<Rightarrow> Inr PNone
           | Inr (Some beneficio) \<Rightarrow> Inr (PFloat beneficio))
      | Some _ \<Rightarrow> Inl (AttributeError ''keys''))"

definition agregar ::
  "'f pylib \<Rightarrow> fsys \<Rightarrow> (string \<times> upload) list \<Rightarrow> (string \<times> string) list \<Rightarrow>
   py_error + ('f pydict \<times> fsys)" where
  "agregar L fs form_files form_data =
     (case processar_campos L form_files campos (fs, [], []) of
        Inl e \<Rightarrow> Inl e
      | Inr (fs', dados_aggregados, documentos_processados) \<Rightarrow>
          (let dados1 = AList.update ''ocupacao''
                          (case map_of form_data ''ocupacao'' of
                             Some s \<Rightarrow> PStr s | None \<Rightarrow> PNone) dados_aggregados
           in case beneficio_de L dados1 of
                Inl e \<Rightarrow> Inl e
              | Inr beneficio \<Rightarrow>
                  (let dados2 = AList.update ''beneficio'' beneficio dados1;
                       dados3 = AList.update ''documentos''
                                  (PList (map PDict documentos_processados)) dados2
                   in case nomes_de L documentos_processados of
                        Inl e \<Rightarrow> Inl e
                      | Inr nomes \<Rightarrow>
                          Inr (AList.update ''inconsistencia_nomes''
                                 (PStr (consistencia_nomes nomes)) dados3, fs'))))"

text \<open>
  \<^verbatim>\<open>gerar_relatorio\<close>: the entries of the report in the order in which the dictionary
  display evaluates them.
\<close>

definition gerar_relatorio :: "'f pylib \<Rightarrow> 'f pydict \<Rightarrow> py_error + 'f pydict" where
  "gerar_relatorio L dados =
     (case verificar_elegibilidade dados of
        Inl e \<Rightarrow> Inl e
      | Inr elegibilidade \<Rightarrow>
          (let incompletas = verificar_documentos_obrigatorios L dados
           in case calcular_aprovacao L dados (py_get_default dados ''ocupacao'' (PStr [])) of
                Inl e \<Rightarrow> Inl e
              | Inr aprovacao \<Rightarrow>
                  Inr [(''rg'', py_get dados ''rg''),
                       (''certidao'', py_get dados ''certidao''),
                       (''cnis'', py_get dados ''cnis''),
                       (''pis'', py_get dados ''pis''),
                       (''mei'', py_get dados ''mei''),
                       (''nome'', py_get dados ''nome''),
                       (''cpf'', py_get dados ''cpf''),
                       (''cpf_valido'', py_get dados ''cpf_valido''),
                       (''beneficio_estimado'', py_get dados ''beneficio''),
                       (''elegibilidade'', PDict elegibilidade),
                       (''documentos_processados'', py_get dados ''documentos''),
                       (''informacoes_incompletas'', PList (map PStr incompletas)),
                       (''ocupacao'', py_get dados ''ocupacao''),
                       (''aprovacao'', PStr aprovacao)]))"

definition processar_documentos ::
  "'f pylib \<Rightarrow> fsys \<Rightarrow> (string \<times> upload) list \<Rightarrow> (string \<times> string) list \<Rightarrow>
   py_error + ('f pydict \<times> fsys)" where
  "processar_documentos L fs form_files form_data =
     (case agregar L fs form_files form_data of
        Inl e \<Rightarrow> Inl e
      | Inr (dados_aggregados, fs') \<Rightarrow>
          (case gerar_relatorio L dados_aggregados of
             Inl e \<Rightarrow> Inl e
           | Inr relatorio \<Rightarrow> Inr (relatorio, fs')))"

section \<open>Properties of the tax-ID validator\<close>

lemma digit_char_less: "k < 10 \<Longrightarrow> k = 0 \<or> k = 1 \<or> k = 2 \<or> k = 3 \<or> k = 4 \<or> k = 5 \<or> k = 6 \<or> k = 7 \<or> k = 8 \<or> k = (9::nat)"
  by arith

lemma py_str_digit: "0 \<le> i \<Longrightarrow> i < 10 \<Longrightarrow> py_str i = [digit_char (nat i)]"
  unfolding py_str_def by (simp add: str_nat.simps)

lemma check_digit_spec_range: "0 \<le> check_digit_spec ds w \<and> check_digit_spec ds w < 10"
proof -
  define r where "r = sum_list (map (\<lambda>(d, p). d * int p) (zip ds (rev [2 ..< Suc w]))) mod 11"
  have "0 \<le> r" "r < 11" unfolding r_def by simp_all
  moreover have "check_digit_spec ds w = (if r < 2 then 0 else 11 - r)"
    unfolding check_digit_spec_def r_def Let_def by simp
  ultimately show ?thesis by auto
qed

lemma filter_full_length: "length (filter P xs) = length xs \<Longrightarrow> filter P xs = xs"
  by (metis filter_id_conv length_filter_less less_irrefl)

text \<open>
  Claim C10. \<open>validar_cpf\<close> returns false for every input whose number of digits, after
  the non-digits are stripped, differs from 11: more than 11 digits are rejected like fewer
  than 11.
\<close>

theorem validar_cpf_rejects_other_lengths:
  "length (filter is_digit s) \<noteq> 11 \<Longrightarrow> \<not> validar_cpf s"
  by (simp add: validar_cpf_def Let_def)

text \<open>The theorem at an input of twelve digits and at one of ten.\<close>

theorem validar_cpf_rejects_other_lengths_witness:
  "length (filter is_digit ''529982247025'') \<noteq> 11 \<and> \<not> validar_cpf ''529982247025''
   \<and> length (filter is_digit ''5299822472'') \<noteq> 11 \<and> \<not> validar_cpf ''5299822472''"
proof -
  have a: "length (filter is_digit ''529982247025'') \<noteq> 11" by code_simp
  have b: "length (filter is_digit ''5299822472'') \<noteq> 11" by code_simp
  show ?thesis
    using a b validar_cpf_rejects_other_lengths[OF a] validar_cpf_rejects_other_lengths[OF b]
    by blast
qed

section \<open>Properties of the tax-ID validator on Unicode text\<close>

lemma ascii_digito: "0 \<le> k \<Longrightarrow> k < 10 \<Longrightarrow> digito_unicode U (48 + k) = Some k"
  unfolding digito_unicode_def by simp

lemma ascii_is_nd: "0 \<le> k \<Longrightarrow> k < 10 \<Longrightarrow> is_nd U (48 + k)"
  unfolding is_nd_def by (simp add: ascii_digito)

lemma ascii_valor: "0 \<le> k \<Longrightarrow> k < 10 \<Longrightarrow> valor_digito U (48 + k) = k"
  unfolding valor_digito_def by (simp add: ascii_digito)

lemma of_char_digit_char: "k < 10 \<Longrightarrow> of_char (digit_char k) = 48 + int k"
  unfolding digit_char_def
  by (drule digit_char_less) (elim disjE; simp)

lemma py_str_codepoints: "0 \<le> i \<Longrightarrow> i < 10 \<Longrightarrow> map of_char (py_str i) = [48 + i]"
  using py_str_digit[of i] of_char_digit_char[of "nat i"] by simp

lemma soma_pesos_unicode_sum:
  "\<forall>c\<in>set xs. is_nd U c \<Longrightarrow> Suc (length xs) \<le> w \<Longrightarrow>
   soma_pesos_unicode U xs (int w) tot =
     Some (tot + sum_list (map (\<lambda>(d, p). d * int p)
                 (zip (map (valor_digito U) xs) (rev [2 ..< Suc w]))))"
proof (induction xs arbitrary: w tot)
  case Nil
  then show ?case by simp
next
  case (Cons c xs)
  then obtain v where w: "w = Suc v" and v: "Suc (length xs) \<le> v"
    by (cases w) auto
  obtain d where d: "digito_unicode U c = Some d"
    using Cons.prems(1) unfolding is_nd_def by auto
  have vd: "valor_digito U c = d" unfolding valor_digito_def using d by simp
  have i: "int w - 1 = int v" using w by simp
  have r: "rev [2 ..< Suc w] = w # rev [2 ..< Suc v]" using w v by simp
  have nd: "\<forall>c\<in>set xs. is_nd U c" using Cons.prems(1) by simp
  have step: "soma_pesos_unicode U (c # xs) (int w) tot =
              soma_pesos_unicode U xs (int v) (tot + d * int w)"
    using d i by simp
  have s: "sum_list (map (\<lambda>(d, p). d * int p)
             (zip (map (valor_digito U) (c # xs)) (rev [2 ..< Suc w]))) =
           d * int w + sum_list (map (\<lambda>(d, p). d * int p)
             (zip (map (valor_digito U) xs) (rev [2 ..< Suc v])))"
    unfolding r by (simp add: vd del: upt_Suc)
  show ?case unfolding step s using Cons.IH[OF nd v, of "tot + d * int w"]
    by (simp del: upt_Suc)
qed

lemma calcular_digito_unicode_spec:
  assumes "\<forall>c\<in>set xs. is_nd U c" and "Suc (length xs) \<le> w"
  shows "calcular_digito_unicode U xs (int w) =
           Some [48 + check_digit_spec (map (valor_digito U) xs) w]"
proof -
  define r where "r = sum_list (map (\<lambda>(d, p). d * int p)
      (zip (map (valor_digito U) xs) (rev [2 ..< Suc w]))) mod 11"
  have r: "0 \<le> r" "r < 11" unfolding r_def by simp_all
  have c: "check_digit_spec (map (valor_digito U) xs) w = (if r < 2 then 0 else 11 - r)"
    unfolding check_digit_spec_def r_def Let_def by simp
  have d: "calcular_digito_unicode U xs (int w) =
           Some (if r < 2 then map of_char ''0'' else map of_char (py_str (11 - r)))"
    unfolding calcular_digito_unicode_def Let_def r_def
    using soma_pesos_unicode_sum[OF assms, of 0] by simp
  show ?thesis
  proof (cases "r < 2")
    case True
    then show ?thesis using c d by simp
  next
    case False
    then have "map of_char (py_str (11 - r)) = [48 + (11 - r)]"
      using r by (intro py_str_codepoints) auto
    then show ?thesis using c d False by simp
  qed
qed

lemma validar_cpf_unicode_char: "validar_cpf_unicode U s = Some (validar_cpf_emendado U s)"
proof (cases "length (filter (is_nd U) s) = 11")
  case False
  then show ?thesis by (simp add: validar_cpf_unicode_def validar_cpf_emendado_def Let_def)
next
  case True
  define cs where "cs = filter (is_nd U) s"
  define ds where "ds = map (valor_digito U) cs"
  have len: "length cs = 11" using True cs_def by simp
  have dig: "\<forall>c \<in> set cs. is_nd U c" unfolding cs_def by simp
  define d1 where "d1 = check_digit_spec (take 9 ds) 10"
  define d2 where "d2 = check_digit_spec (take 9 ds @ [d1]) 11"
  have d1r: "0 \<le> d1" "d1 < 10" using check_digit_spec_range[of "take 9 ds" 10] d1_def by auto
  have d2r: "0 \<le> d2" "d2 < 10" using check_digit_spec_range[of "take 9 ds @ [d1]" 11] d2_def by auto
  have dig9: "\<forall>c \<in> set (take 9 cs). is_nd U c" using dig by (meson in_set_takeD)
  have c1: "calcular_digito_unicode U (take 9 cs) 10 = Some [48 + d1]"
    using calcular_digito_unicode_spec[OF dig9, of 10] len
    by (simp add: d1_def ds_def take_map)
  have dig10: "\<forall>c \<in> set (take 9 cs @ [48 + d1]). is_nd U c"
    using dig9 ascii_is_nd[OF d1r] by simp
  have "map (valor_digito U) (take 9 cs @ [48 + d1]) = take 9 ds @ [d1]"
    using d1r ascii_valor[OF d1r] by (simp add: ds_def take_map)
  then have c2: "calcular_digito_unicode U (take 9 cs @ [48 + d1]) 11 = Some [48 + d2]"
    using calcular_digito_unicode_spec[OF dig10, of 11] len by (simp add: d2_def)
  have hd0: "hd cs = cs ! 0" using len by (cases cs) auto
  have lhs: "validar_cpf_unicode U s =
       Some (cs \<noteq> replicate 11 (cs ! 0) \<and> drop 9 cs = [48 + d1, 48 + d2])"
    unfolding validar_cpf_unicode_def Let_def cs_def[symmetric] using len c1 c2 by simp
  have rhs: "validar_cpf_emendado U s =
       (cs \<noteq> replicate 11 (hd cs) \<and> drop 9 cs = [48 + d1, 48 + d2])"
    unfolding validar_cpf_emendado_def Let_def cs_def[symmetric] ds_def[symmetric]
      d1_def[symmetric] d2_def[symmetric] using len by simp
  show ?thesis unfolding lhs rhs hd0 by simp
qed

lemma validar_cpf_emendado_digits:
  assumes "validar_cpf_emendado U s"
  shows "length (filter (is_nd U) s) = 11"
    and "drop 9 (filter (is_nd U) s) =
          [48 + check_digit_spec (take 9 (map (valor_digito U) (filter (is_nd U) s))) 10,
           48 + check_digit_spec (take 9 (map (valor_digito U) (filter (is_nd U) s)) @
              [check_digit_spec (take 9 (map (valor_digito U) (filter (is_nd U) s))) 10]) 11]"
  using assms unfolding validar_cpf_emendado_def Let_def by simp_all

lemma validar_cpf_unicode_flip:
  assumes v: "validar_cpf_unicode U s = Some True" and i: "i = 9 \<or> i = 10"
    and c: "c \<noteq> filter (is_nd U) s ! i"
  shows "validar_cpf_unicode U ((filter (is_nd U) s)[i := c]) = Some False"
proof -
  define d where "d = filter (is_nd U) s"
  define d' where "d' = d[i := c]"
  have e: "validar_cpf_emendado U s" using v unfolding validar_cpf_unicode_char by simp
  have len: "length d = 11" using validar_cpf_emendado_digits(1)[OF e] d_def by simp
  have fd: "filter (is_nd U) d = d" unfolding d_def by simp
  have "\<not> validar_cpf_emendado U d'"
  proof
    assume e': "validar_cpf_emendado U d'"
    have "length (filter (is_nd U) d') = 11" using validar_cpf_emendado_digits(1)[OF e'] .
    then have f: "filter (is_nd U) d' = d'"
      using len by (intro filter_full_length) (simp add: d'_def)
    have t: "take 9 d' = take 9 d" using i by (auto simp: d'_def)
    have "drop 9 d' = drop 9 d"
      using validar_cpf_emendado_digits(2)[OF e'] validar_cpf_emendado_digits(2)[OF e] t
      unfolding f d_def[symmetric] by (simp add: take_map)
    then have "take 9 d' @ drop 9 d' = take 9 d @ drop 9 d" using t by simp
    then have "d' = d" by simp
    moreover have "d' ! i = c" using i len by (auto simp: d'_def)
    ultimately show False using c d_def by simp
  qed
  then show ?thesis unfolding validar_cpf_unicode_char d'_def d_def by simp
qed

lemma validar_cpf_unicode_identical: "validar_cpf_unicode U (replicate 11 c) = Some False"
proof (cases "is_nd U c")
  case True
  then have "filter (is_nd U) (replicate 11 c) = replicate 11 c" by simp
  then show ?thesis by (simp add: validar_cpf_unicode_def Let_def)
next
  case False
  then have "filter (is_nd U) (replicate 11 c) = []" by simp
  then show ?thesis by (simp add: validar_cpf_unicode_def Let_def)
qed

text \<open>
  Claim C3, as amended. On every text and for every table of the non-ASCII decimal
  digits, \<open>validar_cpf_unicode\<close> returns a boolean (it never raises). It strips the
  characters that are no digits and returns true exactly when 11 digits remain (not fewer,
  and not more), they are not 11 times the same character, and the last two characters are
  the ASCII digits of check digit 1 (weights 10 down to 2 over the values of the first nine
  digits, modulo 11, 0 when the remainder is below 2, else 11 minus the remainder) and of
  check digit 2 (the same rule with weights 11 down to 2 over the first nine values and
  check digit 1). Every text of 11 identical characters is rejected, and replacing either
  check digit of a valid tax ID by any other character gives a rejected text.
\<close>

theorem validar_cpf_unicode_amended:
  "validar_cpf_unicode U s = Some (validar_cpf_emendado U s)
   \<and> validar_cpf_unicode U (replicate 11 c) = Some False
   \<and> (validar_cpf_unicode U s = Some True \<longrightarrow> (i = 9 \<or> i = 10) \<longrightarrow>
        c' \<noteq> filter (is_nd U) s ! i \<longrightarrow>
        validar_cpf_unicode U ((filter (is_nd U) s)[i := c']) = Some False)"
  using validar_cpf_unicode_char validar_cpf_unicode_identical validar_cpf_unicode_flip
  by blast

text \<open>
  The theorem at the reference tax ID 529.982.247-25: it is valid, and flipping its first
  or its second check digit makes it invalid.
\<close>

theorem validar_cpf_unicode_amended_witness:
  "validar_cpf_unicode digitos_exemplo (map of_char ''529.982.247-25'') = Some True
   \<and> validar_cpf_emendado digitos_exemplo (map of_char ''529.982.247-25'')
   \<and> validar_cpf_unicode digitos_exemplo (map of_char ''52998224735'') = Some False
   \<and> validar_cpf_unicode digitos_exemplo (map of_char ''52998224726'') = Some False"
proof -
  let ?s = "map of_char ''529.982.247-25'' :: int list"
  have v: "validar_cpf_unicode digitos_exemplo ?s = Some True" by code_simp
  have d: "filter (is_nd digitos_exemplo) ?s = map of_char ''52998224725''" by code_simp
  have a: "(map of_char ''52998224725'' :: int list)[9 := 51] = map of_char ''52998224735''"
    by code_simp
  have b: "(map of_char ''52998224725'' :: int list)[10 := 54] = map of_char ''52998224726''"
    by code_simp
  have n9: "(51::int) \<noteq> filter (is_nd digitos_exemplo) ?s ! 9" unfolding d by code_simp
  have n10: "(54::int) \<noteq> filter (is_nd digitos_exemplo) ?s ! 10" unfolding d by code_simp
  note t = validar_cpf_unicode_amended[of digitos_exemplo ?s 0]
  have "validar_cpf_emendado digitos_exemplo ?s" using t[of 9 51] v by simp
  moreover have "validar_cpf_unicode digitos_exemplo (map of_char ''52998224735'') = Some False"
    using t[of 9 51] v n9 unfolding d a by blast
  moreover have "validar_cpf_unicode digitos_exemplo (map of_char ''52998224726'') = Some False"
    using t[of 10 54] v n10 unfolding d b by blast
  ultimately show ?thesis using v by blast
qed

text \<open>
  Claim C3 as stated fails on three inputs. The twelve digits 529982247025 are not fewer
  than 11 and not all identical, and their last two are the check digits of the first
  nine, so the stated rule accepts them; the code rejects them because their number is not
  11. The fullwidth digit one (code point 65297) followed by ten ASCII ones is eleven
  digits of value 1, which the stated rule rejects as all identical; the code compares
  characters, finds them not all the same, computes the check digits 1 and 1 and accepts.
  The tax ID 52998224725 written in Arabic-Indic digits has the right check digits by
  value, so the stated rule accepts it; the code compares its last two characters with
  ASCII digits and rejects it.
\<close>

theorem validar_cpf_claimed_counterexample:
  "validar_cpf_claimed digitos_exemplo (map of_char ''529982247025'')
   \<and> validar_cpf_unicode digitos_exemplo (map of_char ''529982247025'') = Some False
   \<and> \<not> validar_cpf_claimed digitos_exemplo (65297 # replicate 10 49)
   \<and> validar_cpf_unicode digitos_exemplo (65297 # replicate 10 49) = Some True
   \<and> validar_cpf_claimed digitos_exemplo
        [1637, 1634, 1641, 1641, 1640, 1634, 1634, 1636, 1639, 1634, 1637]
   \<and> validar_cpf_unicode digitos_exemplo
        [1637, 1634, 1641, 1641, 1640, 1634, 1634, 1636, 1639, 1634, 1637] = Some False"
  by code_simp

section \<open>Properties of the tax-ID extractor\<close>

lemma posicoes_Cons:
  "posicoes p (c # cs) =
     (if casa_prefixo p (c # cs) then [0] else []) @ map Suc (posicoes p cs)"
proof -
  have "[0 ..< Suc (length (c # cs))] = 0 # map Suc [0 ..< Suc (length cs)]"
    by (simp add: upt_conv_Cons map_Suc_upt del: upt_Suc)
  then show ?thesis
    unfolding posicoes_def by (simp add: filter_map comp_def del: upt_Suc)
qed

lemma posicoes_Nil: "posicoes p [] = (if casa_prefixo p [] then [0] else [])"
  unfolding posicoes_def by simp

lemma re_search_posicoes:
  "re_search (casa_fixo p) t =
     (case posicoes p t of [] \<Rightarrow> None | i # _ \<Rightarrow> Some (take (length p) (drop i t)))"
proof (induction t)
  case Nil
  then show ?case by (simp add: posicoes_Nil casa_fixo_def)
next
  case (Cons c cs)
  show ?case
  proof (cases "casa_prefixo p (c # cs)")
    case True
    then show ?thesis by (simp add: posicoes_Cons casa_fixo_def)
  next
    case False
    then have "re_search (casa_fixo p) (c # cs) = re_search (casa_fixo p) cs"
      by (simp add: casa_fixo_def)
    then show ?thesis using False Cons.IH
      by (simp add: posicoes_Cons split: list.splits)
  qed
qed

lemma length_padrao_cpf: "length padrao_cpf = 14" "length padrao_cpf2 = 11"
  unfolding padrao_cpf_def padrao_cpf2_def by simp_all

lemma posicoes_first:
  "posicoes p t = i # is \<Longrightarrow> casa_prefixo p (drop i t) \<and> (\<forall>j<i. \<not> casa_prefixo p (drop j t))"
proof -
  assume a: "posicoes p t = i # is"
  define n where "n = Suc (length t)"
  have "filter (\<lambda>i. casa_prefixo p (drop i t)) [0 ..< n] = i # is \<Longrightarrow>
        casa_prefixo p (drop i t) \<and> i < n \<and> (\<forall>j<i. \<not> casa_prefixo p (drop j t))"
  proof -
    assume f: "filter (\<lambda>i. casa_prefixo p (drop i t)) [0 ..< n] = i # is"
    then obtain us vs where uv: "[0 ..< n] = us @ i # vs"
      and nus: "\<forall>u\<in>set us. \<not> casa_prefixo p (drop u t)" and ci: "casa_prefixo p (drop i t)"
      by (auto simp: filter_eq_Cons_iff)
    have "i \<in> set [0 ..< n]" using uv by simp
    then have iN: "i < n" by simp
    have "us = take (length us) [0 ..< n]" using uv by simp
    moreover have "length [0 ..< n] = length us + Suc (length vs)"
      unfolding uv by simp
    then have "length us < n" by simp
    then have "[0 ..< n] ! length us = length us" by simp
    then have "length us = i" unfolding uv by simp
    ultimately have "us = [0 ..< i]" using iN by (simp add: take_upt)
    then show ?thesis using nus ci iN by auto
  qed
  then show ?thesis using a unfolding posicoes_def n_def by blast
qed

lemma posicoes_empty:
  "posicoes p t = [] \<Longrightarrow> p \<noteq> [] \<Longrightarrow> \<not> casa_prefixo p (drop j t)"
proof (cases "j \<le> length t")
  case True
  assume "posicoes p t = []"
  then show ?thesis using True unfolding posicoes_def by (auto simp: filter_empty_conv)
next
  case False
  assume "p \<noteq> []"
  then show ?thesis using False by (cases p) auto
qed

lemma extrair_cpf_eq_spec: "extrair_cpf t = extrair_cpf_spec t"
  unfolding extrair_cpf_def extrair_cpf_spec_def
  by (simp add: re_search_posicoes length_padrao_cpf split: list.splits)

lemma formatar_cpf_canonico:
  assumes "casa_prefixo padrao_cpf2 g" and "length g = 11"
  shows "casa_prefixo padrao_cpf (formatar_cpf g) \<and> filter is_digit (formatar_cpf g) = g"
proof -
  obtain a b c d e f h i j k l where g: "g = [a, b, c, d, e, f, h, i, j, k, l]"
    using assms(2) by (auto simp: length_Suc_conv numeral_eq_Suc)
  show ?thesis using assms(1) unfolding g
    by (simp add: padrao_cpf_def padrao_cpf2_def formatar_cpf_def lit_def numeral_eq_Suc is_digit_def)
qed

lemma casa_prefixo_take:
  "casa_prefixo p s \<Longrightarrow> length (take (length p) s) = length p \<and> casa_prefixo p (take (length p) s)"
  by (induction p s rule: casa_prefixo.induct) auto

text \<open>
  Claim C7. For every text, \<open>extrair_cpf\<close> returns the first match of the punctuated
  pattern (3 digits, dot, 3 digits, dot, 3 digits, dash, 2 digits) when the pattern matches
  somewhere; otherwise, when a run of 11 digits exists, the first such run in the canonical
  punctuation (the result then matches the punctuated pattern and its digits are the run);
  otherwise the not-found sentinel. The punctuated pattern has priority: the fallback is
  only consulted when the punctuated pattern matches at no position.
\<close>

theorem extrair_cpf_prioridade:
  "extrair_cpf t = extrair_cpf_spec t
   \<and> (posicoes padrao_cpf t = i # is \<longrightarrow>
        extrair_cpf t = take 14 (drop i t) \<and> casa_prefixo padrao_cpf (drop i t) \<and>
        (\<forall>j<i. \<not> casa_prefixo padrao_cpf (drop j t)))
   \<and> (posicoes padrao_cpf t = [] \<longrightarrow> (\<forall>j. \<not> casa_prefixo padrao_cpf (drop j t)))
   \<and> (posicoes padrao_cpf t = [] \<and> posicoes padrao_cpf2 t = i # is \<longrightarrow>
        extrair_cpf t = formatar_cpf (take 11 (drop i t)) \<and>
        casa_prefixo padrao_cpf2 (drop i t) \<and>
        (\<forall>j<i. \<not> casa_prefixo padrao_cpf2 (drop j t)) \<and>
        casa_prefixo padrao_cpf (extrair_cpf t) \<and>
        filter is_digit (extrair_cpf t) = take 11 (drop i t))
   \<and> (posicoes padrao_cpf t = [] \<and> posicoes padrao_cpf2 t = [] \<longrightarrow>
        extrair_cpf t = nao_encontrado \<and> (\<forall>j. \<not> casa_prefixo padrao_cpf2 (drop j t)))"
proof (intro conjI impI)
  show "extrair_cpf t = extrair_cpf_spec t" by (rule extrair_cpf_eq_spec)
next
  assume a: "posicoes padrao_cpf t = i # is"
  show "extrair_cpf t = take 14 (drop i t)"
    using a by (simp add: extrair_cpf_eq_spec extrair_cpf_spec_def)
  show "casa_prefixo padrao_cpf (drop i t)" using posicoes_first[OF a] by simp
  show "\<forall>j<i. \<not> casa_prefixo padrao_cpf (drop j t)" using posicoes_first[OF a] by simp
next
  assume "posicoes padrao_cpf t = []"
  then show "\<forall>j. \<not> casa_prefixo padrao_cpf (drop j t)"
    using posicoes_empty[of padrao_cpf t] by (simp add: padrao_cpf_def)
next
  assume a: "posicoes padrao_cpf t = [] \<and> posicoes padrao_cpf2 t = i # is"
  then have b: "posicoes padrao_cpf2 t = i # is" by simp
  show e: "extrair_cpf t = formatar_cpf (take 11 (drop i t))"
    using a by (simp add: extrair_cpf_eq_spec extrair_cpf_spec_def)
  show c: "casa_prefixo padrao_cpf2 (drop i t)" using posicoes_first[OF b] by simp
  show "\<forall>j<i. \<not> casa_prefixo padrao_cpf2 (drop j t)" using posicoes_first[OF b] by simp
  have g: "casa_prefixo padrao_cpf2 (take 11 (drop i t))" "length (take 11 (drop i t)) = 11"
    using casa_prefixo_take[OF c] by (simp_all only: length_padrao_cpf)
  show "casa_prefixo padrao_cpf (extrair_cpf t)"
    unfolding e using formatar_cpf_canonico[OF g] by simp
  show "filter is_digit (extrair_cpf t) = take 11 (drop i t)"
    unfolding e using formatar_cpf_canonico[OF g] by simp
next
  assume a: "posicoes padrao_cpf t = [] \<and> posicoes padrao_cpf2 t = []"
  show "extrair_cpf t = nao_encontrado"
    using a by (simp add: extrair_cpf_eq_spec extrair_cpf_spec_def)
  show "\<forall>j. \<not> casa_prefixo padrao_cpf2 (drop j t)"
    using a posicoes_empty[of padrao_cpf2 t] by (simp add: padrao_cpf2_def)
qed

text \<open>
  The theorem at a text where a bare run of 11 digits stands before a punctuated tax ID
  (the punctuated one is returned), at a text with a bare run only, and at a text with
  neither.
\<close>

theorem extrair_cpf_prioridade_witness:
  "posicoes padrao_cpf ''CPF 12345678901 ou 111.222.333-44'' = [19]
   \<and> extrair_cpf ''CPF 12345678901 ou 111.222.333-44'' = ''111.222.333-44''
   \<and> posicoes padrao_cpf ''CPF 12345678901'' = []
   \<and> posicoes padrao_cpf2 ''CPF 12345678901'' = [4]
   \<and> extrair_cpf ''CPF 12345678901'' = ''123.456.789-01''
   \<and> posicoes padrao_cpf ''sem numero'' = []
   \<and> posicoes padrao_cpf2 ''sem numero'' = []
   \<and> extrair_cpf ''sem numero'' = nao_encontrado"
proof -
  have a: "posicoes padrao_cpf ''CPF 12345678901 ou 111.222.333-44'' = [19]" by code_simp
  have b: "posicoes padrao_cpf ''CPF 12345678901'' = []" by code_simp
  have c: "posicoes padrao_cpf2 ''CPF 12345678901'' = [4]" by code_simp
  have d: "posicoes padrao_cpf ''sem numero'' = []" by code_simp
  have e: "posicoes padrao_cpf2 ''sem numero'' = []" by code_simp
  have "extrair_cpf ''CPF 12345678901 ou 111.222.333-44'' =
          take 14 (drop 19 ''CPF 12345678901 ou 111.222.333-44'')"
    using extrair_cpf_prioridade[of "''CPF 12345678901 ou 111.222.333-44''" 19 "[]"] a by blast
  then have "extrair_cpf ''CPF 12345678901 ou 111.222.333-44'' = ''111.222.333-44''"
    by simp
  moreover have "extrair_cpf ''CPF 12345678901'' = formatar_cpf (take 11 (drop 4 ''CPF 12345678901''))"
    using extrair_cpf_prioridade[of "''CPF 12345678901''" 4 "[]"] b c by blast
  then have "extrair_cpf ''CPF 12345678901'' = ''123.456.789-01''"
    by (simp add: formatar_cpf_def)
  moreover have "extrair_cpf ''sem numero'' = nao_encontrado"
    using extrair_cpf_prioridade[of "''sem numero''" 0 "[]"] d e by blast
  ultimately show ?thesis using a b c d e by simp
qed

section \<open>Properties of the contribution extractor\<close>

lemma set_update_subset: "set (AList.update k v al) \<subseteq> insert (k, v) (set al)"
  by (induction al) auto

lemma registrar_contribs_map_of:
  "map_of (registrar_contribs L ms c) =
     map_of (rev (List.map_filter
       (\<lambda>(d, v). map_option (\<lambda>x. (d, py_round2 L x)) (py_float L (normalizar_valor v))) ms) @ c)"
proof (induction ms arbitrary: c)
  case Nil
  then show ?case by (simp add: List.map_filter_simps)
next
  case (Cons m ms)
  obtain d v where m: "m = (d, v)" by (cases m)
  show ?case
  proof (cases "py_float L (normalizar_valor v)")
    case None
    then show ?thesis using Cons.IH[of c] m by (simp add: List.map_filter_simps)
  next
    case (Some x)
    have "map_of (registrar_contribs L (m # ms) c) =
          map_of (registrar_contribs L ms (AList.update d (py_round2 L x) c))"
      using m Some by simp
    also have "\<dots> = map_of (rev (List.map_filter
       (\<lambda>(d, v). map_option (\<lambda>x. (d, py_round2 L x)) (py_float L (normalizar_valor v))) ms)
          @ AList.update d (py_round2 L x) c)"
      by (rule Cons.IH)
    also have "\<dots> = map_of (rev (List.map_filter
       (\<lambda>(d, v). map_option (\<lambda>x. (d, py_round2 L x)) (py_float L (normalizar_valor v))) (m # ms)) @ c)"
      using m Some by (simp add: List.map_filter_simps map_add_def update_conv' fun_eq_iff)
    finally show ?thesis .
  qed
qed

lemma registrar_contribs_distinct:
  "distinct (map fst c) \<Longrightarrow> distinct (map fst (registrar_contribs L ms c))"
proof (induction ms arbitrary: c)
  case Nil
  then show ?case by simp
next
  case (Cons m ms)
  obtain d v where m: "m = (d, v)" by (cases m)
  show ?case using Cons m
    by (cases "py_float L (normalizar_valor v)") (simp_all add: distinct_update)
qed

lemma registrar_contribs_set:
  "set (registrar_contribs L ms c) \<subseteq>
     set c \<union> set (List.map_filter
       (\<lambda>(d, v). map_option (\<lambda>x. (d, py_round2 L x)) (py_float L (normalizar_valor v))) ms)"
proof (induction ms arbitrary: c)
  case Nil
  then show ?case by simp
next
  case (Cons m ms)
  obtain d v where m: "m = (d, v)" by (cases m)
  show ?case
  proof (cases "py_float L (normalizar_valor v)")
    case None
    then show ?thesis using Cons.IH[of c] m by (auto simp: List.map_filter_simps)
  next
    case (Some x)
    have "set (AList.update d (py_round2 L x) c) \<subseteq> insert (d, py_round2 L x) (set c)"
      by (rule set_update_subset)
    then show ?thesis using Cons.IH[of "AList.update d (py_round2 L x) c"] m Some
      by (auto simp: List.map_filter_simps)
  qed
qed

lemma registrar_contribs_keys:
  "fst ` set (registrar_contribs L ms c) =
     fst ` set c \<union> fst ` set (List.map_filter
       (\<lambda>(d, v). map_option (\<lambda>x. (d, py_round2 L x)) (py_float L (normalizar_valor v))) ms)"
proof -
  have "dom (map_of (registrar_contribs L ms c)) =
        dom (map_of (rev (List.map_filter
       (\<lambda>(d, v). map_option (\<lambda>x. (d, py_round2 L x)) (py_float L (normalizar_valor v))) ms) @ c))"
    by (simp only: registrar_contribs_map_of)
  then show ?thesis by (simp add: dom_map_of_conv_image_fst Un_commute)
qed

lemma casa_prefixo_append:
  "casa_prefixo (p @ q) s \<longleftrightarrow>
     length p \<le> length s \<and> casa_prefixo p (take (length p) s) \<and> casa_prefixo q (drop (length p) s)"
  by (induction p s rule: casa_prefixo.induct) auto

lemma takeWhile_dropWhile_all: "\<forall>c\<in>set (takeWhile P xs). P c"
  by (auto dest: set_takeWhileD)

lemma casa_contrib_forma:
  assumes "casa_contrib s = Some (d, v, r)"
  shows "formato_data d" and "v \<noteq> []" and "\<forall>c\<in>set v. is_valor_char c"
    and "\<exists>ws. (\<forall>c\<in>set ws. is_space c) \<and> s = d @ '':'' @ ws @ v @ r"
    and "r = [] \<or> \<not> is_valor_char (hd r)"
proof -
  define q where "q = dropWhile is_space (drop 8 s)"
  have cp: "casa_prefixo padrao_data s"
    and v: "v = takeWhile is_valor_char q" and d: "d = take 7 s"
    and r: "r = dropWhile is_valor_char q" and vne: "takeWhile is_valor_char q \<noteq> []"
    using assms unfolding casa_contrib_def Let_def q_def by (auto split: if_splits)
  define p7 where "p7 = [is_digit, is_digit, is_digit, is_digit, lit CHR ''-'', is_digit, is_digit]"
  have l7: "length p7 = 7" unfolding p7_def by simp
  have pd: "padrao_data = p7 @ [lit CHR '':'']"
    unfolding padrao_data_def p7_def by simp
  have ap: "7 \<le> length s \<and> casa_prefixo p7 (take 7 s) \<and> casa_prefixo [lit CHR '':''] (drop 7 s)"
    using cp unfolding pd casa_prefixo_append l7 .
  show "formato_data d" unfolding formato_data_def d p7_def[symmetric] using ap by simp
  show "v \<noteq> []" using v vne by simp
  show "\<forall>c\<in>set v. is_valor_char c" unfolding v by (rule takeWhile_dropWhile_all)
  have "drop 7 s = CHR '':'' # drop 8 s"
  proof (cases "drop 7 s")
    case Nil
    then show ?thesis using ap by simp
  next
    case (Cons x xs)
    then have "x = CHR '':''" using ap by (simp add: lit_def)
    moreover have "drop 8 s = drop 1 (drop 7 s)" by simp
    ultimately show ?thesis using Cons by simp
  qed
  then have "take 7 s @ '':'' @ drop 8 s = take 7 s @ drop 7 s" by simp
  also have "\<dots> = s" by (rule append_take_drop_id)
  finally have s: "d @ '':'' @ drop 8 s = s" unfolding d .
  have "v @ r = q" unfolding v r by (rule takeWhile_dropWhile_id)
  then have "takeWhile is_space (drop 8 s) @ v @ r = takeWhile is_space (drop 8 s) @ q" by simp
  also have "\<dots> = drop 8 s" unfolding q_def by (rule takeWhile_dropWhile_id)
  finally have "d @ '':'' @ takeWhile is_space (drop 8 s) @ v @ r = d @ '':'' @ drop 8 s" by simp
  then have "s = d @ '':'' @ takeWhile is_space (drop 8 s) @ v @ r" using s by simp
  moreover have "\<forall>c\<in>set (takeWhile is_space (drop 8 s)). is_space c"
    by (rule takeWhile_dropWhile_all)
  ultimately show "\<exists>ws. (\<forall>c\<in>set ws. is_space c) \<and> s = d @ '':'' @ ws @ v @ r" by blast
  show "r = [] \<or> \<not> is_valor_char (hd r)" unfolding r
    using hd_dropWhile[of is_valor_char q] by blast
qed

lemma findall_contrib_casa:
  "(d, v) \<in> set (findall_contrib t) \<Longrightarrow> \<exists>i r. casa_contrib (drop i t) = Some (d, v, r)"
proof (induction t rule: findall_contrib.induct)
  case 1
  then show ?case by simp
next
  case (2 c cs)
  show ?case
  proof (cases "casa_contrib (c # cs)")
    case None
    then have "(d, v) \<in> set (findall_contrib cs)" using "2.prems" by simp
    then obtain i r where "casa_contrib (drop i cs) = Some (d, v, r)"
      using "2.IH"(1)[OF None] by blast
    then have "casa_contrib (drop (Suc i) (c # cs)) = Some (d, v, r)" by simp
    then show ?thesis by blast
  next
    case (Some m)
    obtain d' v' r' where m: "m = (d', v', r')" by (cases m)
    show ?thesis
    proof (cases "(d, v) = (d', v')")
      case True
      then have "casa_contrib (drop 0 (c # cs)) = Some (d, v, r')" using Some m by simp
      then show ?thesis by blast
    next
      case False
      then have "(d, v) \<in> set (findall_contrib r')" using "2.prems" Some m by auto
      then obtain i r where i: "casa_contrib (drop i r') = Some (d, v, r)"
        using "2.IH"(2)[OF Some m[symmetric] refl] by blast
      obtain ws where ws: "c # cs = d' @ '':'' @ ws @ v' @ r'"
        using casa_contrib_forma(4)[of "c # cs" d' v' r'] Some m by blast
      define pre where "pre = d' @ '':'' @ ws @ v'"
      have "c # cs = pre @ r'" unfolding pre_def using ws by simp
      then have "drop (length pre) (c # cs) = r'" by simp
      then have "drop (i + length pre) (c # cs) = drop i r'"
        by (simp only: drop_drop[symmetric])
      then have "casa_contrib (drop (i + length pre) (c # cs)) = Some (d, v, r)"
        using i by simp
      then show ?thesis by blast
    qed
  qed
qed

lemma findall_contrib_scan:
  "(\<forall>i<n. casa_contrib (drop i t) = None) \<Longrightarrow> casa_contrib (drop n t) = Some (d, v, r) \<Longrightarrow>
   findall_contrib t = (d, v) # findall_contrib r"
proof (induction n arbitrary: t)
  case 0
  then have "t \<noteq> []" by (auto simp: casa_contrib_def padrao_data_def)
  then obtain c cs where "t = c # cs" by (cases t) auto
  then show ?case using 0 by simp
next
  case (Suc n)
  have "t \<noteq> []" using Suc.prems(2) by (auto simp: casa_contrib_def padrao_data_def)
  then obtain c cs where t: "t = c # cs" by (cases t) auto
  have none: "casa_contrib (c # cs) = None" using Suc.prems(1)[rule_format, of 0] t by simp
  have "\<forall>i<n. casa_contrib (drop i cs) = None"
  proof (intro allI impI)
    fix i assume "i < n"
    then have "casa_contrib (drop (Suc i) t) = None" using Suc.prems(1) by simp
    then show "casa_contrib (drop i cs) = None" using t by simp
  qed
  moreover have "casa_contrib (drop n cs) = Some (d, v, r)" using Suc.prems(2) t by simp
  ultimately have "findall_contrib cs = (d, v) # findall_contrib r" by (rule Suc.IH)
  then show ?case using t none by simp
qed

lemma findall_contrib_none:
  "(\<forall>i. casa_contrib (drop i t) = None) \<Longrightarrow> findall_contrib t = []"
proof (induction t)
  case Nil
  then show ?case by simp
next
  case (Cons c cs)
  have "casa_contrib (c # cs) = None" using Cons.prems[rule_format, of 0] by simp
  moreover have "\<forall>i. casa_contrib (drop i cs) = None"
  proof
    fix i
    have "casa_contrib (drop (Suc i) (c # cs)) = None" using Cons.prems by blast
    then show "casa_contrib (drop i cs) = None" by simp
  qed
  ultimately show ?case using Cons.IH by simp
qed

lemma findall_contrib_forma:
  "(d, v) \<in> set (findall_contrib t) \<Longrightarrow> formato_data d \<and> v \<noteq> [] \<and> (\<forall>c\<in>set v. is_valor_char c)"
  using findall_contrib_casa[of d v t] casa_contrib_forma(1,2,3) by blast

lemma ocorrencias_validas_set:
  "(d, y) \<in> set (ocorrencias_validas L t) \<longleftrightarrow>
     (\<exists>v x. (d, v) \<in> set (findall_contrib t) \<and> py_float L (normalizar_valor v) = Some x \<and>
            y = py_round2 L x)"
  unfolding ocorrencias_validas_def
  by (auto simp: List.map_filter_def split: option.splits) force

lemma extrair_contribuicoes_exemplo:
  "extrair_contribuicoes L ''2023-05: 1.234,56'' =
     (case py_float L ''1234.56'' of Some x \<Rightarrow> [(''2023-05'', py_round2 L x)] | None \<Rightarrow> [])"
proof -
  have f: "findall_contrib ''2023-05: 1.234,56'' = [(''2023-05'', ''1.234,56'')]" by code_simp
  have n: "normalizar_valor ''1.234,56'' = ''1234.56''" by code_simp
  show ?thesis unfolding extrair_contribuicoes_def f
    by (simp add: n split: option.splits)
qed

text \<open>
  Claim C6, as amended. For every text, the result of \<open>extrair_contribuicoes\<close> is a mapping (its keys are
  distinct) with one entry per distinct key of the occurrences of the pattern whose amount
  parses:
  its keys are the keys of those occurrences, each entry is the key of such an occurrence
  with its amount normalised (dots stripped, comma turned into a point), parsed by
  \<^verbatim>\<open>float\<close> and rounded by \<^verbatim>\<open>round(_, 2)\<close>, and of several occurrences with one key the last
  one counts. Every occurrence has a key of the form YYYY-MM and a non-empty amount of
  digits, dots and commas (no sign); the occurrences are found from the left, each search
  starting where the match before ended. An occurrence that parses gets its key into the
  result whatever the other occurrences do, so an occurrence that fails to parse is skipped
  without stopping the extraction. Whatever holds of every rounded parsed unsigned numeral
  (being non-negative, having two decimal places) holds of every value of the result. The
  text \<^verbatim>\<open>2023-05: 1.234,56\<close> yields the single key 2023-05 with the rounded value of
  \<^verbatim>\<open>float("1234.56")\<close>.
\<close>

theorem extrair_contribuicoes_ocorrencias:
  "distinct (map fst (extrair_contribuicoes L t))
   \<and> fst ` set (extrair_contribuicoes L t) = fst ` set (ocorrencias_validas L t)
   \<and> set (extrair_contribuicoes L t) \<subseteq> set (ocorrencias_validas L t)
   \<and> map_of (extrair_contribuicoes L t) = map_of (rev (ocorrencias_validas L t))
   \<and> (\<forall>(d, v) \<in> set (findall_contrib t).
         formato_data d \<and> v \<noteq> [] \<and> (\<forall>c\<in>set v. is_valor_char c))
   \<and> ((\<forall>i<n. casa_contrib (drop i t) = None) \<and> casa_contrib (drop n t) = Some (d, v, r) \<longrightarrow>
        findall_contrib t = (d, v) # findall_contrib r)
   \<and> ((d', v') \<in> set (findall_contrib t) \<and> py_float L (normalizar_valor v') = Some x \<longrightarrow>
        d' \<in> fst ` set (extrair_contribuicoes L t))
   \<and> ((\<forall>w y. (\<forall>c\<in>set w. is_valor_char c) \<and> py_float L (normalizar_valor w) = Some y \<longrightarrow>
              P (py_round2 L y)) \<longrightarrow>
        (\<forall>(k, y) \<in> set (extrair_contribuicoes L t). P y))
   \<and> extrair_contribuicoes L ''2023-05: 1.234,56'' =
        (case py_float L ''1234.56'' of Some x \<Rightarrow> [(''2023-05'', py_round2 L x)] | None \<Rightarrow> [])"
proof -
  let ?R = "extrair_contribuicoes L t" and ?V = "ocorrencias_validas L t"
  have a: "distinct (map fst ?R)"
    unfolding extrair_contribuicoes_def by (rule registrar_contribs_distinct) simp
  have b: "fst ` set ?R = fst ` set ?V"
    unfolding extrair_contribuicoes_def ocorrencias_validas_def
    by (simp add: registrar_contribs_keys)
  have c: "set ?R \<subseteq> set ?V"
    unfolding extrair_contribuicoes_def ocorrencias_validas_def
    using registrar_contribs_set[of L "findall_contrib t" "[]"] by simp
  have e: "map_of ?R = map_of (rev ?V)"
    unfolding extrair_contribuicoes_def ocorrencias_validas_def
    by (simp add: registrar_contribs_map_of)
  have f: "\<forall>(d, v) \<in> set (findall_contrib t).
         formato_data d \<and> v \<noteq> [] \<and> (\<forall>c\<in>set v. is_valor_char c)"
    using findall_contrib_forma by blast
  have g: "(\<forall>i<n. casa_contrib (drop i t) = None) \<and> casa_contrib (drop n t) = Some (d, v, r) \<longrightarrow>
        findall_contrib t = (d, v) # findall_contrib r"
    using findall_contrib_scan by blast
  have h: "(d', v') \<in> set (findall_contrib t) \<and> py_float L (normalizar_valor v') = Some x \<longrightarrow>
        d' \<in> fst ` set ?R"
  proof
    assume "(d', v') \<in> set (findall_contrib t) \<and> py_float L (normalizar_valor v') = Some x"
    then have "(d', py_round2 L x) \<in> set ?V" unfolding ocorrencias_validas_set by blast
    then have "d' \<in> fst ` set ?V" by force
    then show "d' \<in> fst ` set ?R" using b by simp
  qed
  have i: "(\<forall>w y. (\<forall>c\<in>set w. is_valor_char c) \<and> py_float L (normalizar_valor w) = Some y \<longrightarrow>
              P (py_round2 L y)) \<longrightarrow> (\<forall>(k, y) \<in> set ?R. P y)"
  proof (intro impI ballI)
    fix ky
    assume p: "\<forall>w y. (\<forall>c\<in>set w. is_valor_char c) \<and> py_float L (normalizar_valor w) = Some y \<longrightarrow>
              P (py_round2 L y)"
    assume "ky \<in> set ?R"
    then have "(fst ky, snd ky) \<in> set ?V" using c by auto
    then obtain w y where w: "(fst ky, w) \<in> set (findall_contrib t)"
      and y: "py_float L (normalizar_valor w) = Some y" "snd ky = py_round2 L y"
      unfolding ocorrencias_validas_set by blast
    have "\<forall>c\<in>set w. is_valor_char c" using findall_contrib_forma[OF w] by simp
    then have "P (snd ky)" using p y by auto
    then show "case ky of (k, y) \<Rightarrow> P y" by (simp add: case_prod_beta)
  qed
  show ?thesis using a b c e f g h i extrair_contribuicoes_exemplo by blast
qed

lemma valor_digitos_nonneg:
  "\<forall>c\<in>set s. is_digit c \<Longrightarrow> 0 \<le> a \<Longrightarrow> 0 \<le> foldl (\<lambda>a c. 10 * a + int_digito c) a s"
proof (induction s arbitrary: a)
  case Nil
  then show ?case by simp
next
  case (Cons c s)
  have "is_digit c" using Cons.prems(1) by simp
  then have "0 \<le> int_digito c" unfolding is_digit_def int_digito_def by auto
  then have "0 \<le> 10 * a + int_digito c" using Cons.prems(2) by simp
  then show ?case using Cons.IH[of "10 * a + int_digito c"] Cons.prems(1) by simp
qed

lemma cent_float_nonneg: "cent_float s = Some y \<Longrightarrow> 0 \<le> y"
proof -
  assume a: "cent_float s = Some y"
  define ip where "ip = takeWhile is_digit s"
  define r where "r = dropWhile is_digit s"
  have i: "0 \<le> valor_digitos ip" unfolding valor_digitos_def ip_def
    by (rule valor_digitos_nonneg) (auto dest: set_takeWhileD)
  show ?thesis
  proof (cases "r = []")
    case True
    then show ?thesis using a i unfolding cent_float_def Let_def ip_def[symmetric] r_def[symmetric]
      by (auto split: if_splits)
  next
    case False
    then have f: "filter is_digit (tl r) = tl r"
      and y: "y = 100 * valor_digitos ip + (valor_digitos (take 3 (tl r @ ''000'')) + 5) div 10"
      using a unfolding cent_float_def Let_def ip_def[symmetric] r_def[symmetric]
      by (auto split: if_splits)
    have "\<forall>c\<in>set (tl r). is_digit c" using f by (metis filter_id_conv)
    moreover have "\<forall>c\<in>set ''000''. is_digit c" by (simp add: is_digit_def)
    ultimately have "\<forall>c\<in>set (take 3 (tl r @ ''000'')). is_digit c"
      by (metis Un_iff in_set_takeD set_append)
    then have "0 \<le> valor_digitos (take 3 (tl r @ ''000''))"
      unfolding valor_digitos_def by (intro valor_digitos_nonneg) auto
    then show ?thesis using i y by simp
  qed
qed

text \<open>
  The theorem at a text whose first occurrence has a numeral that does not parse (two
  decimal points after normalisation) and whose second occurrence parses: the first is
  skipped, the second is extracted, and its value is non-negative.
\<close>

theorem extrair_contribuicoes_ocorrencias_witness:
  "casa_contrib ''2023-04: 1,2,3 2023-05: 1.234,56'' =
     Some (''2023-04'', ''1,2,3'', '' 2023-05: 1.234,56'')
   \<and> py_float cent_lib (normalizar_valor ''1,2,3'') = None
   \<and> py_float cent_lib (normalizar_valor ''1.234,56'') = Some 123456
   \<and> findall_contrib ''2023-04: 1,2,3 2023-05: 1.234,56'' =
       (''2023-04'', ''1,2,3'') # findall_contrib '' 2023-05: 1.234,56''
   \<and> ''2023-05'' \<in> fst ` set (extrair_contribuicoes cent_lib ''2023-04: 1,2,3 2023-05: 1.234,56'')
   \<and> list_all (\<lambda>(k, y). 0 \<le> y)
        (extrair_contribuicoes cent_lib ''2023-04: 1,2,3 2023-05: 1.234,56'')
   \<and> extrair_contribuicoes cent_lib ''2023-04: 1,2,3 2023-05: 1.234,56'' = [(''2023-05'', 123456)]
   \<and> extrair_contribuicoes cent_lib ''2023-05: 1.234,56'' = [(''2023-05'', 123456)]"
proof -
  let ?t = "''2023-04: 1,2,3 2023-05: 1.234,56''"
  let ?r = "'' 2023-05: 1.234,56''"
  have c: "casa_contrib ?t = Some (''2023-04'', ''1,2,3'', ?r)" by code_simp
  have n1: "py_float cent_lib (normalizar_valor ''1,2,3'') = None" by code_simp
  have n2: "py_float cent_lib (normalizar_valor ''1.234,56'') = Some 123456" by code_simp
  have m: "(''2023-05'', ''1.234,56'') \<in> set (findall_contrib ?t)" by code_simp
  have p: "\<forall>w y. (\<forall>c\<in>set w. is_valor_char c) \<and> py_float cent_lib (normalizar_valor w) = Some y \<longrightarrow>
              0 \<le> py_round2 cent_lib y"
    using cent_float_nonneg by (auto simp: cent_lib_def)
  have e: "extrair_contribuicoes cent_lib ?t = [(''2023-05'', 123456)]" by code_simp
  have f: "py_float cent_lib ''1234.56'' = Some 123456" by code_simp
  have r2: "py_round2 cent_lib 123456 = 123456" by code_simp
  note T = extrair_contribuicoes_ocorrencias[where L = cent_lib and t = ?t and n = 0
      and d = "''2023-04''" and v = "''1,2,3''" and r = ?r and d' = "''2023-05''"
      and v' = "''1.234,56''" and x = 123456 and P = "\<lambda>y. 0 \<le> y"]
  have s: "findall_contrib ?t = (''2023-04'', ''1,2,3'') # findall_contrib ?r"
    using T[THEN conjunct2, THEN conjunct2, THEN conjunct2, THEN conjunct2, THEN conjunct2,
        THEN conjunct1] c by simp
  have k: "''2023-05'' \<in> fst ` set (extrair_contribuicoes cent_lib ?t)"
    using T[THEN conjunct2, THEN conjunct2, THEN conjunct2, THEN conjunct2, THEN conjunct2,
        THEN conjunct2, THEN conjunct1] m n2 by blast
  have "\<forall>(k, y) \<in> set (extrair_contribuicoes cent_lib ?t). 0 \<le> y"
    using T[THEN conjunct2, THEN conjunct2, THEN conjunct2, THEN conjunct2, THEN conjunct2,
        THEN conjunct2, THEN conjunct2, THEN conjunct1] p by blast
  then have l: "list_all (\<lambda>(k, y). 0 \<le> y) (extrair_contribuicoes cent_lib ?t)"
    by (simp add: list_all_iff)
  have x: "extrair_contribuicoes cent_lib ''2023-05: 1.234,56'' = [(''2023-05'', 123456)]"
    using T[THEN conjunct2, THEN conjunct2, THEN conjunct2, THEN conjunct2, THEN conjunct2,
        THEN conjunct2, THEN conjunct2, THEN conjunct2] f r2 by simp
  show ?thesis using c n1 n2 s k l e x by blast
qed

text \<open>
  Claim C6 as stated promises one entry per occurrence whose amount parses. A text with
  two occurrences of one key, both parsing, yields a single entry, with the value of the
  later occurrence: the mapping has fewer entries than there are parsing occurrences.
\<close>

theorem extrair_contribuicoes_counterexample:
  "findall_contrib ''2023-05: 1,00 2023-05: 2,00'' =
     [(''2023-05'', ''1,00''), (''2023-05'', ''2,00'')]
   \<and> py_float cent_lib (normalizar_valor ''1,00'') = Some 100
   \<and> py_float cent_lib (normalizar_valor ''2,00'') = Some 200
   \<and> ocorrencias_validas cent_lib ''2023-05: 1,00 2023-05: 2,00'' =
       [(''2023-05'', 100), (''2023-05'', 200)]
   \<and> extrair_contribuicoes cent_lib ''2023-05: 1,00 2023-05: 2,00'' = [(''2023-05'', 200)]
   \<and> length (extrair_contribuicoes cent_lib ''2023-05: 1,00 2023-05: 2,00'') \<noteq>
       length (ocorrencias_validas cent_lib ''2023-05: 1,00 2023-05: 2,00'')"
  by code_simp

section \<open>Properties of the benefit estimator\<close>

lemma valores_de_name_error:
  "datas \<noteq> [] \<Longrightarrow> valores_de contribuicoes datas = Inl (NameError ''contribs'')"
  by (cases datas) (simp_all add: global_contribs_def)

lemma datas_nonempty: "contribuicoes \<noteq> [] \<Longrightarrow> take 12 (rev (sort (map fst contribuicoes))) \<noteq> []"
proof -
  assume "contribuicoes \<noteq> []"
  then have "0 < length (rev (sort (map fst contribuicoes)))" by simp
  then show ?thesis by (metis length_greater_0_conv take_eq_Nil zero_neq_numeral)
qed

text \<open>
  Claim C1 describes the estimator of the specification; the code does not compute it.
  \<open>calcular_beneficio\<close> returns \<^verbatim>\<open>None\<close> for the empty mapping, as claimed, and raises
  \<^verbatim>\<open>NameError\<close> for every non-empty mapping, because the filter of its list comprehension
  reads the unbound name \<^verbatim>\<open>contribs\<close>: no mean, floor or rounding is ever reached.
\<close>

theorem calcular_beneficio_name_error:
  "calcular_beneficio L contribuicoes =
     (if contribuicoes = [] then Inr None else Inl (NameError ''contribs''))"
  unfolding calcular_beneficio_def Let_def
  using valores_de_name_error[OF datas_nonempty, of contribuicoes contribuicoes]
  by (simp split: sum.splits)

text \<open>
  The two examples of the claim, amounts in hundredths: for 12 months of 1000.00 the
  specification gives 1412.00 and the code raises; for a month of 2000.00 the
  specification gives 2000.00 and the code raises.
\<close>

theorem calcular_beneficio_name_error_witness:
  "calcular_beneficio cent_lib
     [(''2023-01'', 100000), (''2023-02'', 100000), (''2023-03'', 100000), (''2023-04'', 100000),
      (''2023-05'', 100000), (''2023-06'', 100000), (''2023-07'', 100000), (''2023-08'', 100000),
      (''2023-09'', 100000), (''2023-10'', 100000), (''2023-11'', 100000), (''2023-12'', 100000)]
     = Inl (NameError ''contribs'')
   \<and> calcular_beneficio_spec cent_lib
     [(''2023-01'', 100000), (''2023-02'', 100000), (''2023-03'', 100000), (''2023-04'', 100000),
      (''2023-05'', 100000), (''2023-06'', 100000), (''2023-07'', 100000), (''2023-08'', 100000),
      (''2023-09'', 100000), (''2023-10'', 100000), (''2023-11'', 100000), (''2023-12'', 100000)]
     = Some 141200
   \<and> calcular_beneficio cent_lib [(''2024-01'', 200000)] = Inl (NameError ''contribs'')
   \<and> calcular_beneficio_spec cent_lib [(''2024-01'', 200000)] = Some 200000
   \<and> calcular_beneficio cent_lib [] = Inr None"
proof -
  have a: "calcular_beneficio_spec cent_lib
     [(''2023-01'', 100000), (''2023-02'', 100000), (''2023-03'', 100000), (''2023-04'', 100000),
      (''2023-05'', 100000), (''2023-06'', 100000), (''2023-07'', 100000), (''2023-08'', 100000),
      (''2023-09'', 100000), (''2023-10'', 100000), (''2023-11'', 100000), (''2023-12'', 100000)]
     = Some 141200" by code_simp
  have b: "calcular_beneficio_spec cent_lib [(''2024-01'', 200000)] = Some 200000" by code_simp
  show ?thesis using a b by (simp add: calcular_beneficio_name_error)
qed

section \<open>Properties of the approval scorer\<close>




lemma pontuacao_nao_dict:
  assumes "map_of dados ''elegibilidade'' = Some v" and "\<forall>e. v \<noteq> PDict e"
  shows "pontuacao L dados ocupacao = Inl (AttributeError ''get'')"
proof -
  have g: "py_get_default dados ''elegibilidade'' (PDict []) = v"
    unfolding py_get_default_def assms(1) by simp
  show ?thesis unfolding pontuacao_def g using assms(2)
    by (cases v) (simp_all only: pyval.case, simp)
qed




end
